theory Spec2Isabelle
  imports Complex_Main "HOL-Library.Sublist" "HOL-Library.Char_ord" "HOL-Library.List_Lexorder"
begin

section \<open>Python values and built-ins used by the chatbot\<close>

text \<open>
  Strings are \<^typ>\<open>string\<close>. \<open>needle in haystack\<close> on strings is \<^const>\<open>sublist\<close>
  (a contiguous run).

  Python's \<open>str.lower\<close>, \<open>str.upper\<close> and the classes \<open>\s\<close>, \<open>\d\<close>, \<open>\w\<close> and
  \<open>\b\<close> of \<open>re\<close> follow the Unicode character database, which is not modelled. The
  definitions below are these operations on ASCII text, where they are exact: an ASCII
  letter changes case, every other ASCII character is unchanged, and the classes are
  the ASCII ones (\<open>\s\<close> with the separators U+001C to U+001F). On text beyond ASCII
  they say nothing about the code, so every property that depends on case folding or on
  a pattern assumes \<open>is_ascii\<close> of the strings that are folded or searched.
\<close>

text \<open>
  \<open>digit7\<close> is the top bit of a character: a string is ASCII when no character has it
  set, that is, when every character is below U+0080.
\<close>

definition is_ascii :: "string \<Rightarrow> bool" where
  "is_ascii s = list_all (\<lambda>c. \<not> digit7 c) s"

definition str_lower :: "string \<Rightarrow> string" where
  "str_lower s = map (\<lambda>c. case map_of (zip ''ABCDEFGHIJKLMNOPQRSTUVWXYZ''
                                           ''abcdefghijklmnopqrstuvwxyz'') c of
                          None \<Rightarrow> c | Some d \<Rightarrow> d) s"

definition str_upper :: "string \<Rightarrow> string" where
  "str_upper s = map (\<lambda>c. case map_of (zip ''abcdefghijklmnopqrstuvwxyz''
                                           ''ABCDEFGHIJKLMNOPQRSTUVWXYZ'') c of
                          None \<Rightarrow> c | Some d \<Rightarrow> d) s"

text \<open>\<open>sep.join(parts)\<close> on a list of strings.\<close>

fun join :: "string \<Rightarrow> string list \<Rightarrow> string" where
  "join sep [] = []"
| "join sep [x] = x"
| "join sep (x # y # ys) = x @ sep @ join sep (y # ys)"

text \<open>
  The exceptions the modelled code can raise. \<open>ProviderError\<close> is an exception raised
  by a collaborator (the vector store, the embedder, the language model), with its text.
\<close>

datatype error =
    KeyError string
  | TypeError
  | AttributeError
  | ValueError string
  | ProviderError string

text \<open>
  What \<open>json.load\<close> returns. Numbers are the integers: floating point is not modelled.
  A \<open>JDict\<close> lists a Python dict's items in insertion order; a lookup takes the first
  binding of a key.
\<close>

datatype json =
    JNull
  | JBool bool
  | JInt int
  | JStr string
  | JList "json list"
  | JDict "(string \<times> json) list"

text \<open>Truth value of a Python object (\<open>if x\<close>, \<open>all\<close>, \<open>or\<close>).\<close>

fun truthy :: "json \<Rightarrow> bool" where
  "truthy JNull = False"
| "truthy (JBool b) = b"
| "truthy (JInt i) = (i \<noteq> 0)"
| "truthy (JStr s) = (s \<noteq> [])"
| "truthy (JList xs) = (xs \<noteq> [])"
| "truthy (JDict kvs) = (kvs \<noteq> [])"

text \<open>\<open>str\<close> of an integer: decimal digits, a minus sign for a negative one.\<close>

fun show_nat :: "nat \<Rightarrow> string" where
  "show_nat n = (if n < 10 then [''0123456789'' ! n]
                 else show_nat (n div 10) @ [''0123456789'' ! (n mod 10)])"

definition show_int :: "int \<Rightarrow> string" where
  "show_int i = (if i < 0 then CHR ''-'' # show_nat (nat (- i)) else show_nat (nat i))"

text \<open>
  \<open>repr\<close> of a string: single quotes, unless the string holds a single quote and no
  double quote; the backslash, the chosen quote, tab, newline and carriage return are
  escaped, other control characters are written \<open>\xNN\<close>.
\<close>

definition repr_char :: "char \<Rightarrow> char \<Rightarrow> string" where
  "repr_char quote c =
     (if c = CHR 0x5C then [CHR 0x5C, CHR 0x5C]
      else if c = quote then [CHR 0x5C, quote]
      else if c = CHR 0x09 then [CHR 0x5C, CHR ''t'']
      else if c = CHR 0x0A then [CHR 0x5C, CHR ''n'']
      else if c = CHR 0x0D then [CHR 0x5C, CHR ''r'']
      else if (of_char c :: nat) < 32 \<or> (of_char c :: nat) = 127 then
        [CHR 0x5C, CHR ''x'', ''0123456789abcdef'' ! ((of_char c :: nat) div 16),
         ''0123456789abcdef'' ! ((of_char c :: nat) mod 16)]
      else [c])"

definition repr_str :: "string \<Rightarrow> string" where
  "repr_str s =
     (let quote = (if CHR 0x27 \<in> set s \<and> CHR 0x22 \<notin> set s then CHR 0x22 else CHR 0x27)
      in [quote] @ concat (map (repr_char quote) s) @ [quote])"

fun py_repr :: "json \<Rightarrow> string" where
  "py_repr JNull = ''None''"
| "py_repr (JBool b) = (if b then ''True'' else ''False'')"
| "py_repr (JInt i) = show_int i"
| "py_repr (JStr s) = repr_str s"
| "py_repr (JList xs) = ''['' @ join '', '' (map py_repr xs) @ '']''"
| "py_repr (JDict kvs) =
     ''{'' @ join '', '' (map (\<lambda>kv. repr_str (fst kv) @ '': '' @ py_repr (snd kv)) kvs) @ ''}''"

text \<open>\<open>str(x)\<close>, which is also how an f-string renders \<open>{x}\<close>.\<close>

definition py_str :: "json \<Rightarrow> string" where
  "py_str v = (case v of JStr s \<Rightarrow> s | _ \<Rightarrow> py_repr v)"

text \<open>\<open>d.get(key, default)\<close> on the items of a dict.\<close>

definition dict_get :: "(string \<times> json) list \<Rightarrow> string \<Rightarrow> json \<Rightarrow> json" where
  "dict_get kvs key dflt = (case map_of kvs key of None \<Rightarrow> dflt | Some v \<Rightarrow> v)"

text \<open>\<open>x[key]\<close> with a string key: only a dict holding the key answers.\<close>

definition py_item :: "json \<Rightarrow> string \<Rightarrow> error + json" where
  "py_item x key =
     (case x of
        JDict kvs \<Rightarrow> (case map_of kvs key of None \<Rightarrow> Inl (KeyError key) | Some v \<Rightarrow> Inr v)
      | _ \<Rightarrow> Inl TypeError)"

text \<open>
  Iterating a value (\<open>for x in v\<close>, \<open>sep.join(v)\<close>): a list gives its elements, a string
  its characters, a dict its keys; anything else is not iterable.
\<close>

definition py_iter :: "json \<Rightarrow> error + json list" where
  "py_iter v =
     (case v of
        JList xs \<Rightarrow> Inr xs
      | JStr s \<Rightarrow> Inr (map (\<lambda>c. JStr [c]) s)
      | JDict kvs \<Rightarrow> Inr (map (\<lambda>kv. JStr (fst kv)) kvs)
      | _ \<Rightarrow> Inl TypeError)"

definition is_str :: "json \<Rightarrow> bool" where
  "is_str v = (case v of JStr s \<Rightarrow> True | _ \<Rightarrow> False)"

definition str_of :: "json \<Rightarrow> string" where
  "str_of v = (case v of JStr s \<Rightarrow> s | _ \<Rightarrow> [])"

text \<open>\<open>sep.join(items)\<close>: a \<open>TypeError\<close> unless every item is a string.\<close>

definition join_items :: "string \<Rightarrow> json list \<Rightarrow> error + string" where
  "join_items sep items =
     (if list_all is_str items then Inr (join sep (map str_of items)) else Inl TypeError)"

definition py_join :: "string \<Rightarrow> json \<Rightarrow> error + string" where
  "py_join sep v = (case py_iter v of Inl e \<Rightarrow> Inl e | Inr items \<Rightarrow> join_items sep items)"

section \<open>The syllabus chatbot (chatbot_script.py)\<close>

subsection \<open>State\<close>

text \<open>
  A chunk is the dict \<open>{'content', 'metadata', 'chunk_type'}\<close> that \<open>load_data\<close> appends
  to \<open>chunks_data\<close>; a retrieved document is the dict \<open>{'content', 'metadata', 'distance'}\<close>
  that \<open>retrieve_context\<close> builds, its metadata the string-valued dict the vector store
  holds (every value was written with \<open>str\<close>).
\<close>

record chunk =
  chunk_content :: string
  chunk_metadata :: json
  chunk_type :: string

record doc =
  doc_content :: string
  doc_metadata :: "(string \<times> string) list"
  doc_distance :: real

text \<open>
  The fields of \<open>EnhancedSyllabusRAGChatbot\<close>. The two collaborators are functions:
  \<open>model\<close> maps a prompt to the text of the model's answer, or to the text of the
  exception it raised; \<open>collection\<close>, when set, embeds a query string and returns the
  \<open>n_results\<close> nearest documents, or raises. \<open>course_details\<close> is a dict keyed by course
  code: a map on the hashable scalars, \<open>True\<close> and \<open>False\<close> being the keys \<open>1\<close> and \<open>0\<close>.
  \<open>semester_course_map\<close> keeps its insertion order; each course summary in it is the
  dict \<open>{'course_code', 'course_name', 'credits', 'category'}\<close>.
\<close>

record chatbot =
  model :: "string \<Rightarrow> string + string"
  collection :: "(string \<Rightarrow> int \<Rightarrow> string + doc list) option"
  chunks_data :: "chunk list"
  faq_data :: json
  concept_mapping :: json
  course_details :: "json \<Rightarrow> json option"
  semester_course_map :: "(string \<times> json list) list"

definition init_chatbot :: "(string \<Rightarrow> string + string) \<Rightarrow> chatbot" where
  "init_chatbot generative_model =
     \<lparr>model = generative_model, collection = None, chunks_data = [], faq_data = JList [],
      concept_mapping = JDict [], course_details = (\<lambda>k. None), semester_course_map = []\<rparr>"

subsection \<open>load_data\<close>

text \<open>
  The dict comprehension \<open>{course['metadata']['course_code']: course for course in ...}\<close>:
  both subscripts raise on a missing key, and a list or dict is not hashable.
\<close>

definition dict_key :: "json \<Rightarrow> error + json" where
  "dict_key k =
     (case k of
        JList xs \<Rightarrow> Inl TypeError
      | JDict kvs \<Rightarrow> Inl TypeError
      | JBool b \<Rightarrow> Inr (JInt (if b then 1 else 0))
      | _ \<Rightarrow> Inr k)"

fun build_course_details ::
  "(json \<Rightarrow> json option) \<Rightarrow> json list \<Rightarrow> error + (json \<Rightarrow> json option)" where
  "build_course_details acc [] = Inr acc"
| "build_course_details acc (course # rest) =
     (case py_item course ''metadata'' of
        Inl e \<Rightarrow> Inl e
      | Inr metadata \<Rightarrow>
          (case py_item metadata ''course_code'' of
             Inl e \<Rightarrow> Inl e
           | Inr course_code \<Rightarrow>
               (case dict_key course_code of
                  Inl e \<Rightarrow> Inl e
                | Inr k \<Rightarrow> build_course_details (acc(k \<mapsto> course)) rest)))"

text \<open>
  \<open>if semester not in self.semester_course_map: ... = []\<close> followed by \<open>.append(entry)\<close>:
  a new semester goes to the end, a known one keeps its place.
\<close>

fun semester_append ::
  "string \<Rightarrow> json \<Rightarrow> (string \<times> json list) list \<Rightarrow> (string \<times> json list) list" where
  "semester_append semester entry [] = [(semester, [entry])]"
| "semester_append semester entry ((k, entries) # rest) =
     (if k = semester then (k, entries @ [entry]) # rest
      else (k, entries) # semester_append semester entry rest)"

definition overview_content :: "json \<Rightarrow> json \<Rightarrow> string \<Rightarrow> (string \<times> json) list \<Rightarrow> string" where
  "overview_content course_name course_code semester metadata =
     ''Course Overview for '' @ py_str course_name @ '' ('' @ py_str course_code @ ''): '' @
     ''This is a Semester '' @ semester @ '' '' @ [CHR 0x27] @
     py_str (dict_get metadata ''category'' (JStr ''N/A'')) @ [CHR 0x27] @ '' course with '' @
     py_str (dict_get metadata ''credits'' (JStr ''N/A'')) @ '' credits. '' @
     ''Prerequisites: '' @ py_str (dict_get metadata ''prerequisites'' (JStr ''Not specified'')) @
     ''.''"

text \<open>
  The outcomes chunk (the block marked FIX in the source): only for a non-empty list;
  \<open>'; '.join(outcomes)\<close> raises on an outcome that is not a string.
\<close>

definition outcomes_chunks ::
  "json \<Rightarrow> json \<Rightarrow> (string \<times> json) list \<Rightarrow> error + chunk list" where
  "outcomes_chunks course_name course_code metadata =
     (case dict_get metadata ''course_outcomes'' (JList []) of
        JList outcomes \<Rightarrow>
          (if outcomes \<noteq> [] then
             (case join_items ''; '' outcomes of
                Inl e \<Rightarrow> Inl e
              | Inr joined \<Rightarrow>
                  Inr [\<lparr>chunk_content =
                          ''The course outcomes for '' @ py_str course_name @ '' ('' @
                          py_str course_code @ '') are: '' @ joined,
                        chunk_metadata = JDict metadata, chunk_type = ''outcomes''\<rparr>])
           else Inr [])
      | _ \<Rightarrow> Inr [])"

text \<open>
  One chunk per syllabus unit that is a dict; any other unit is skipped with a warning.
  A list of topics is joined with \<open>", "\<close>.
\<close>

fun unit_chunks ::
  "json \<Rightarrow> json \<Rightarrow> (string \<times> json) list \<Rightarrow> json list \<Rightarrow> error + chunk list" where
  "unit_chunks course_name course_code metadata [] = Inr []"
| "unit_chunks course_name course_code metadata (JDict unit # rest) =
     (case (case dict_get unit ''topics'' (JStr ''Not specified'') of
              JList topics \<Rightarrow> join_items '', '' topics
            | unit_topics \<Rightarrow> Inr (py_str unit_topics)) of
        Inl e \<Rightarrow> Inl e
      | Inr unit_topics \<Rightarrow>
          (case unit_chunks course_name course_code metadata rest of
             Inl e \<Rightarrow> Inl e
           | Inr later \<Rightarrow>
               Inr (\<lparr>chunk_content =
                        ''Syllabus for '' @ py_str course_name @ '' ('' @ py_str course_code @
                        ''), Unit '' @ py_str (dict_get unit ''unit_number'' (JStr [])) @
                        '' titled '' @ [CHR 0x27] @
                        py_str (dict_get unit ''title'' (JStr ''N/A'')) @ [CHR 0x27] @
                        '': '' @ unit_topics,
                      chunk_metadata = JDict metadata, chunk_type = ''syllabus_unit''\<rparr> # later)))"
| "unit_chunks course_name course_code metadata (unit # rest) =
     unit_chunks course_name course_code metadata rest"

text \<open>The books chunk: only when a textbook or a reference book is listed.\<close>

definition books_chunks ::
  "json \<Rightarrow> json \<Rightarrow> (string \<times> json) list \<Rightarrow> json \<Rightarrow> error + chunk list" where
  "books_chunks course_name course_code metadata books =
     (case books of
        JDict b \<Rightarrow>
          (let textbooks = dict_get b ''textbooks'' (JList []);
               ref_books = dict_get b ''reference_books'' (JList [])
           in if truthy textbooks \<or> truthy ref_books then
                (case (if truthy textbooks then py_join '', '' textbooks
                       else Inr ''None listed'') of
                   Inl e \<Rightarrow> Inl e
                 | Inr text_list \<Rightarrow>
                     (case (if truthy ref_books then py_join '', '' ref_books
                            else Inr ''None listed'') of
                        Inl e \<Rightarrow> Inl e
                      | Inr ref_list \<Rightarrow>
                          Inr [\<lparr>chunk_content =
                                  ''Reading materials for '' @ py_str course_name @ '' ('' @
                                  py_str course_code @ ''). '' @
                                  ''Textbooks: '' @ text_list @ ''. '' @
                                  ''Reference Books: '' @ ref_list @ ''.'',
                                chunk_metadata = JDict metadata, chunk_type = ''books''\<rparr>]))
              else Inr [])
      | _ \<Rightarrow> Inl AttributeError)"

text \<open>
  The test \<open>if not all([course_code, course_name, semester]): continue\<close> on the
  metadata of a course: an absent key reads as \<open>None\<close>.
\<close>

definition skipped :: "(string \<times> json) list \<Rightarrow> bool" where
  "skipped metadata =
     (\<not> (truthy (dict_get metadata ''course_code'' JNull) \<and>
         truthy (dict_get metadata ''course_name'' JNull) \<and>
         truthy (dict_get metadata ''semester'' JNull)))"

text \<open>
  The body of the loop \<open>for course in restructured_data\<close>. The result is the chatbot
  after the body, or the exception that left it.
\<close>

definition process_course :: "chatbot \<Rightarrow> json \<Rightarrow> error + chatbot" where
  "process_course st course =
     (case course of
        JDict c \<Rightarrow>
          (case dict_get c ''metadata'' (JDict []) of
             JDict metadata \<Rightarrow>
               (let course_code = dict_get metadata ''course_code'' JNull;
                    course_name = dict_get metadata ''course_name'' JNull;
                    semester = py_str (dict_get metadata ''semester'' JNull)
                in if skipped metadata then Inr st
                   else
                     (case outcomes_chunks course_name course_code metadata of
                        Inl e \<Rightarrow> Inl e
                      | Inr outcome_part \<Rightarrow>
                     (case py_iter (dict_get c ''syllabus'' (JList [])) of
                        Inl e \<Rightarrow> Inl e
                      | Inr units \<Rightarrow>
                     (case unit_chunks course_name course_code metadata units of
                        Inl e \<Rightarrow> Inl e
                      | Inr unit_part \<Rightarrow>
                     (case books_chunks course_name course_code metadata
                             (dict_get c ''books'' (JDict [])) of
                        Inl e \<Rightarrow> Inl e
                      | Inr book_part \<Rightarrow>
                          Inr (st\<lparr>semester_course_map :=
                                    semester_append semester
                                      (JDict [(''course_code'', course_code),
                                              (''course_name'', course_name),
                                              (''credits'', dict_get metadata ''credits'' (JStr ''N/A'')),
                                              (''category'', dict_get metadata ''category'' (JStr ''N/A''))])
                                      (semester_course_map st),
                                  chunks_data :=
                                    chunks_data st @
                                    [\<lparr>chunk_content =
                                        overview_content course_name course_code semester metadata,
                                      chunk_metadata = JDict metadata, chunk_type = ''overview''\<rparr>] @
                                    outcome_part @ unit_part @ book_part\<rparr>))))))
           | _ \<Rightarrow> Inl AttributeError)
      | _ \<Rightarrow> Inl AttributeError)"

fun process_courses :: "chatbot \<Rightarrow> json list \<Rightarrow> error + chatbot" where
  "process_courses st [] = Inr st"
| "process_courses st (course # rest) =
     (case process_course st course of
        Inl e \<Rightarrow> Inl e
      | Inr st' \<Rightarrow> process_courses st' rest)"

text \<open>
  \<open>load_data\<close> on the parsed syllabus file and the parsed optimization file
  (\<open>None\<close>: the file does not exist, which the source catches). The closing \<open>print\<close>
  takes \<open>len(self.faq_data)\<close>, which raises on a value without a length.
\<close>

definition has_len :: "json \<Rightarrow> bool" where
  "has_len v = (case v of JList xs \<Rightarrow> True | JStr s \<Rightarrow> True | JDict kvs \<Rightarrow> True | _ \<Rightarrow> False)"

definition load_data :: "chatbot \<Rightarrow> json \<Rightarrow> json option \<Rightarrow> error + chatbot" where
  "load_data st restructured_data optimization_data =
     (case py_iter restructured_data of
        Inl e \<Rightarrow> Inl e
      | Inr courses \<Rightarrow>
     (case build_course_details (\<lambda>k. None) courses of
        Inl e \<Rightarrow> Inl e
      | Inr details \<Rightarrow>
     (case process_courses (st\<lparr>course_details := details\<rparr>) courses of
        Inl e \<Rightarrow> Inl e
      | Inr st1 \<Rightarrow>
     (case (case optimization_data of
              None \<Rightarrow> Inr (st1\<lparr>faq_data := JList [], concept_mapping := JDict []\<rparr>)
            | Some (JDict opt) \<Rightarrow>
                Inr (st1\<lparr>faq_data := dict_get opt ''faq_dataset'' (JList []),
                          concept_mapping := dict_get opt ''concept_mapping'' (JDict [])\<rparr>)
            | Some _ \<Rightarrow> Inl AttributeError) of
        Inl e \<Rightarrow> Inl e
      | Inr st2 \<Rightarrow> (if has_len (faq_data st2) then Inr st2 else Inl TypeError)))))"

subsection \<open>The outcomes chunks the specification asks for\<close>

text \<open>
  These three definitions follow the words of the specification, not the code; the
  code's \<open>load_data\<close> is compared with them below. A record is processed when it is a
  dict whose metadata is a dict holding a course code, a course name and a semester.
  Its outcomes are the items of \<open>course_outcomes\<close> when that is a list. A processed
  record with at least one outcome gets exactly one outcomes chunk, whose content is
  the opening \<open>The course outcomes for <name> (<code>) are: \<close> of the source followed
  by the outcomes joined by \<open>"; "\<close>; any other record gets none.
\<close>

definition record_metadata :: "json \<Rightarrow> (string \<times> json) list option" where
  "record_metadata course =
     (case course of
        JDict c \<Rightarrow>
          (case dict_get c ''metadata'' (JDict []) of
             JDict metadata \<Rightarrow> (if skipped metadata then None else Some metadata)
           | _ \<Rightarrow> None)
      | _ \<Rightarrow> None)"

definition record_outcomes :: "json \<Rightarrow> json list" where
  "record_outcomes course =
     (case record_metadata course of
        None \<Rightarrow> []
      | Some metadata \<Rightarrow>
          (case dict_get metadata ''course_outcomes'' (JList []) of
             JList outcomes \<Rightarrow> outcomes
           | _ \<Rightarrow> []))"

definition spec_outcomes_chunks :: "json \<Rightarrow> chunk list" where
  "spec_outcomes_chunks course =
     (case record_metadata course of
        None \<Rightarrow> []
      | Some metadata \<Rightarrow>
          (if record_outcomes course = [] then []
           else [\<lparr>chunk_content =
                    ''The course outcomes for '' @
                    py_str (dict_get metadata ''course_name'' JNull) @ '' ('' @
                    py_str (dict_get metadata ''course_code'' JNull) @ '') are: '' @
                    join ''; '' (map str_of (record_outcomes course)),
                  chunk_metadata = JDict metadata, chunk_type = ''outcomes''\<rparr>]))"

subsection \<open>Regular expressions\<close>

text \<open>
  The two patterns of \<open>enhance_query\<close> use word boundaries, character classes, an
  optional group and greedy repetition of a class. A cursor is a position in the
  subject: the character before it (if any) and the text from it on. \<open>rmatch r cur\<close> lists
  the cursors where a match of \<open>r\<close> begun at \<open>cur\<close> can end, in the order a backtracking
  matcher tries them (greedy first), so the head of the list is the match \<open>re\<close> reports.
\<close>

type_synonym cursor = "char option \<times> string"

datatype regex =
    Eps
  | WordB
  | Cls "char \<Rightarrow> bool"
  | Opt regex
  | Star "char \<Rightarrow> bool"
  | Seq regex regex

definition is_digit :: "char \<Rightarrow> bool" where
  "is_digit c = (c \<in> set ''0123456789'')"

definition is_upper :: "char \<Rightarrow> bool" where
  "is_upper c = (c \<in> set ''ABCDEFGHIJKLMNOPQRSTUVWXYZ'')"

definition is_word :: "char \<Rightarrow> bool" where
  "is_word c =
     (c \<in> set ''abcdefghijklmnopqrstuvwxyzABCDEFGHIJKLMNOPQRSTUVWXYZ0123456789_'')"

definition is_space :: "char \<Rightarrow> bool" where
  "is_space c =
     (c \<in> set [CHR '' '', CHR 0x09, CHR 0x0A, CHR 0x0B, CHR 0x0C, CHR 0x0D,
                CHR 0x1C, CHR 0x1D, CHR 0x1E, CHR 0x1F])"

definition word_before :: "cursor \<Rightarrow> bool" where
  "word_before cur = (case fst cur of None \<Rightarrow> False | Some c \<Rightarrow> is_word c)"

definition word_after :: "cursor \<Rightarrow> bool" where
  "word_after cur = (case snd cur of [] \<Rightarrow> False | c # s \<Rightarrow> is_word c)"

fun star :: "(char \<Rightarrow> bool) \<Rightarrow> char option \<Rightarrow> string \<Rightarrow> cursor list" where
  "star f p [] = [(p, [])]"
| "star f p (c # s) = (if f c then star f (Some c) s else []) @ [(p, c # s)]"

fun rmatch :: "regex \<Rightarrow> cursor \<Rightarrow> cursor list" where
  "rmatch Eps cur = [cur]"
| "rmatch WordB cur = (if word_before cur \<noteq> word_after cur then [cur] else [])"
| "rmatch (Cls f) cur =
     (case snd cur of [] \<Rightarrow> [] | c # s \<Rightarrow> if f c then [(Some c, s)] else [])"
| "rmatch (Opt r) cur = rmatch r cur @ [cur]"
| "rmatch (Star f) cur = star f (fst cur) (snd cur)"
| "rmatch (Seq r1 r2) cur = concat (map (rmatch r2) (rmatch r1 cur))"

definition seqs :: "regex list \<Rightarrow> regex" where
  "seqs rs = foldr Seq rs Eps"

definition lit :: "string \<Rightarrow> regex" where
  "lit s = seqs (map (\<lambda>c. Cls (\<lambda>x. x = c)) s)"

text \<open>The text between two cursors of the same subject.\<close>

definition between :: "cursor \<Rightarrow> cursor \<Rightarrow> string" where
  "between c1 c2 = take (length (snd c1) - length (snd c2)) (snd c1)"

text \<open>
  A match attempt at one position: \<open>match_whole\<close> gives the matched text (\<open>.group()\<close>),
  \<open>match_group pre grp post\<close> the text of the one capturing group of the pattern
  \<open>pre(grp)post\<close> (\<open>.group(1)\<close>).
\<close>

definition match_whole :: "regex \<Rightarrow> cursor \<Rightarrow> string option" where
  "match_whole r cur = (case rmatch r cur of [] \<Rightarrow> None | c # cs \<Rightarrow> Some (between cur c))"

definition match_group :: "regex \<Rightarrow> regex \<Rightarrow> regex \<Rightarrow> cursor \<Rightarrow> string option" where
  "match_group pre grp post cur =
     (case concat (map (\<lambda>c1. concat (map (\<lambda>c2. map (\<lambda>c3. between c1 c2) (rmatch post c2))
                                           (rmatch grp c1)))
                       (rmatch pre cur)) of
        [] \<Rightarrow> None
      | g # gs \<Rightarrow> Some g)"

text \<open>\<open>re.search\<close>: the attempt at the leftmost position that succeeds.\<close>

fun search_from :: "(cursor \<Rightarrow> 'a option) \<Rightarrow> char option \<Rightarrow> string \<Rightarrow> 'a option" where
  "search_from attempt p [] = attempt (p, [])"
| "search_from attempt p (c # s) =
     (case attempt (p, c # s) of
        Some r \<Rightarrow> Some r
      | None \<Rightarrow> search_from attempt (Some c) s)"

text \<open>Every position's attempt, left to right: all the places where the pattern matches.\<close>

fun attempts_from :: "(cursor \<Rightarrow> 'a option) \<Rightarrow> char option \<Rightarrow> string \<Rightarrow> 'a list" where
  "attempts_from attempt p [] = (case attempt (p, []) of None \<Rightarrow> [] | Some r \<Rightarrow> [r])"
| "attempts_from attempt p (c # s) =
     (case attempt (p, c # s) of None \<Rightarrow> [] | Some r \<Rightarrow> [r]) @ attempts_from attempt (Some c) s"

text \<open>\<open>r'\bsem(?:ester)?\s*(\d+)\b'\<close>, and the search for it with \<open>.group(1)\<close>.\<close>

definition sem_pre :: regex where
  "sem_pre = seqs [WordB, lit ''sem'', Opt (lit ''ester''), Star is_space]"

definition sem_digits :: regex where
  "sem_digits = seqs [Cls is_digit, Star is_digit]"

definition sem_search :: "string \<Rightarrow> string option" where
  "sem_search s = search_from (match_group sem_pre sem_digits WordB) None s"

definition sem_references :: "string \<Rightarrow> string list" where
  "sem_references s = attempts_from (match_group sem_pre sem_digits WordB) None s"

text \<open>\<open>r'\b\d{2}[A-Z&]{2,}\d{4}[A-Z]?\b'\<close>, and the search for it with \<open>.group()\<close>.\<close>

definition course_code_pattern :: regex where
  "course_code_pattern =
     seqs [WordB, Cls is_digit, Cls is_digit,
           Cls (\<lambda>c. is_upper c \<or> c = CHR ''&''), Cls (\<lambda>c. is_upper c \<or> c = CHR ''&''),
           Star (\<lambda>c. is_upper c \<or> c = CHR ''&''),
           Cls is_digit, Cls is_digit, Cls is_digit, Cls is_digit,
           Opt (Cls is_upper), WordB]"

definition course_code_search :: "string \<Rightarrow> string option" where
  "course_code_search s = search_from (match_whole course_code_pattern) None s"

subsection \<open>enhance_query\<close>

text \<open>\<open>[c['course_name'] for c in courses]\<close>.\<close>

fun course_names :: "json list \<Rightarrow> error + json list" where
  "course_names [] = Inr []"
| "course_names (c # cs) =
     (case py_item c ''course_name'' of
        Inl e \<Rightarrow> Inl e
      | Inr n \<Rightarrow> (case course_names cs of Inl e \<Rightarrow> Inl e | Inr ns \<Rightarrow> Inr (n # ns)))"

text \<open>
  What \<open>enhanced_terms.extend(courses[:2])\<close> adds: the first two items of a list, the
  first two characters of a string. No other value can be sliced; the exception is
  modelled as a \<open>TypeError\<close> for each of them.
\<close>

definition first_two :: "json \<Rightarrow> error + json list" where
  "first_two courses =
     (case courses of
        JList xs \<Rightarrow> Inr (take 2 xs)
      | JStr s \<Rightarrow> Inr (map (\<lambda>c. JStr [c]) (take 2 s))
      | _ \<Rightarrow> Inl TypeError)"

fun concept_terms :: "string \<Rightarrow> (string \<times> json) list \<Rightarrow> error + json list" where
  "concept_terms query_lower [] = Inr []"
| "concept_terms query_lower ((concept, courses) # rest) =
     (if sublist (str_lower concept) query_lower then
        (case first_two courses of
           Inl e \<Rightarrow> Inl e
         | Inr ts \<Rightarrow>
             (case concept_terms query_lower rest of
                Inl e \<Rightarrow> Inl e
              | Inr us \<Rightarrow> Inr (ts @ us)))
      else concept_terms query_lower rest)"

definition semester_terms :: "chatbot \<Rightarrow> string \<Rightarrow> error + json list" where
  "semester_terms st query_lower =
     (case sem_search query_lower of
        None \<Rightarrow> Inr []
      | Some sem_num \<Rightarrow>
          (case map_of (semester_course_map st) sem_num of
             None \<Rightarrow> Inr []
           | Some courses \<Rightarrow> course_names courses))"

definition course_code_terms :: "chatbot \<Rightarrow> string \<Rightarrow> error + json list" where
  "course_code_terms st query =
     (case course_code_search (str_upper query) of
        None \<Rightarrow> Inr []
      | Some course_code \<Rightarrow>
          (case course_details st (JStr course_code) of
             None \<Rightarrow> Inr []
           | Some course \<Rightarrow>
               (case py_item course ''metadata'' of
                  Inl e \<Rightarrow> Inl e
                | Inr (JDict metadata) \<Rightarrow> Inr [dict_get metadata ''course_name'' (JStr [])]
                | Inr _ \<Rightarrow> Inl AttributeError)))"

definition enhance_query :: "chatbot \<Rightarrow> string \<Rightarrow> error + string" where
  "enhance_query st query =
     (case semester_terms st (str_lower query) of
        Inl e \<Rightarrow> Inl e
      | Inr sem_part \<Rightarrow>
     (case course_code_terms st query of
        Inl e \<Rightarrow> Inl e
      | Inr code_part \<Rightarrow>
     (case (case concept_mapping st of
              JDict concepts \<Rightarrow> concept_terms (str_lower query) concepts
            | _ \<Rightarrow> Inl AttributeError) of
        Inl e \<Rightarrow> Inl e
      | Inr concept_part \<Rightarrow>
          (let enhanced_terms = sem_part @ code_part @ concept_part
           in if enhanced_terms = [] then Inr query
              else (case join_items '' '' enhanced_terms of
                      Inl e \<Rightarrow> Inl e
                    | Inr joined \<Rightarrow> Inr (query @ '' '' @ joined))))))"

subsection \<open>retrieve_context\<close>

definition retrieve_context :: "chatbot \<Rightarrow> string \<Rightarrow> int \<Rightarrow> error + doc list" where
  "retrieve_context st query n_results =
     (case collection st of
        None \<Rightarrow> Inl (ValueError ''Vector store not initialized.'')
      | Some coll \<Rightarrow>
          (case enhance_query st query of
             Inl e \<Rightarrow> Inl e
           | Inr enhanced_query \<Rightarrow>
               (case coll enhanced_query n_results of
                  Inl msg \<Rightarrow> Inl (ProviderError msg)
                | Inr docs \<Rightarrow> Inr docs)))"

subsection \<open>generate_enhanced_response\<close>

definition context_part :: "doc \<Rightarrow> string" where
  "context_part d =
     ''Context Snippet (Source: '' @
     (case map_of (doc_metadata d) ''source'' of None \<Rightarrow> ''unknown'' | Some s \<Rightarrow> s) @
     '', Course: '' @
     (case map_of (doc_metadata d) ''course_code'' of None \<Rightarrow> ''N/A'' | Some s \<Rightarrow> s) @
     ''):\<newline>'' @ doc_content d"

definition default_prompt :: "string \<Rightarrow> string \<Rightarrow> string" where
  "default_prompt context_text query =
     ''You are a precise and helpful academic assistant for a university syllabus. Your task is to answer the student's question concisely based ONLY on the provided context.\<newline>'' @
     ''\<newline>'' @
     ''        Context Information:\<newline>'' @
     ''        ---\<newline>'' @
     ''        '' @ context_text @ ''\<newline>'' @
     ''        ---\<newline>'' @
     ''\<newline>'' @
     ''        Student's Question: '' @ query @ ''\<newline>'' @
     ''\<newline>'' @
     ''        Instructions:\<newline>'' @
     ''        1. Synthesize a coherent, friendly answer from the provided context. Do not just list the raw snippets.\<newline>'' @
     ''        2. If the context contains a list of courses, present them clearly in a list format.\<newline>'' @
     ''        3. If specific details like textbooks, prerequisites, or outcomes are available in the context, integrate them naturally into your response.\<newline>'' @
     ''        4. If the information to answer the question is NOT in the context, you MUST explicitly state that you cannot find the information in the provided documents.\<newline>'' @
     ''        5. Be direct and clear in your response.\<newline>'' @
     ''\<newline>'' @
     ''        Answer:''"

definition syllabus_prompt :: "string \<Rightarrow> string \<Rightarrow> string" where
  "syllabus_prompt context_text query =
     ''You are a precise academic assistant. A student is asking specifically for the syllabus for a course. Based ONLY on the provided context, answer their question.\<newline>'' @
     ''\<newline>'' @
     ''            Context Information:\<newline>'' @
     ''            ---\<newline>'' @
     ''            '' @ context_text @ ''\<newline>'' @
     ''            ---\<newline>'' @
     ''\<newline>'' @
     ''            Student's Question: '' @ query @ ''\<newline>'' @
     ''\<newline>'' @
     ''            Instructions:\<newline>'' @
     ''            1. Find the syllabus units and topics in the context.\<newline>'' @
     ''            2. List ONLY the syllabus units with their topics. Format them clearly with unit numbers and titles.\<newline>'' @
     ''            3. CRITICAL: Do NOT include the Course Overview, prerequisites, course outcomes, credits, or book recommendations in your answer.\<newline>'' @
     ''            4. If the syllabus unit information is not available in the context, explicitly state that.\<newline>'' @
     ''\<newline>'' @
     ''            Answer:''"

text \<open>The prompt handed to the model: the part of the function before its \<open>try\<close>.\<close>

definition compose_prompt :: "string \<Rightarrow> doc list \<Rightarrow> string" where
  "compose_prompt query context_docs =
     (let context_text = join ''\<newline>---\<newline>'' (map context_part context_docs);
          query_lower = str_lower query
      in if sublist ''syllabus'' query_lower \<and>
            \<not> (\<exists>keyword \<in> set [''book'', ''overview'', ''credit'', ''outcome'', ''prerequisite''].
                  sublist keyword query_lower)
         then syllabus_prompt context_text query
         else default_prompt context_text query)"

definition generate_enhanced_response :: "chatbot \<Rightarrow> string \<Rightarrow> doc list \<Rightarrow> string" where
  "generate_enhanced_response st query context_docs =
     (case model st (compose_prompt query context_docs) of
        Inr response_text \<Rightarrow> response_text
      | Inl error_message \<Rightarrow>
          (if sublist ''API key not valid'' error_message then
             ''Sorry, there is an issue with the server's API key configuration. Please contact the administrator.''
           else ''Sorry, I encountered an error generating the response: '' @ error_message))"

subsection \<open>chat\<close>

record chat_result =
  res_query :: string
  answer :: string
  context_used :: nat
  relevant_courses :: "string list"

text \<open>
  \<open>sorted(list(set(f"{code} - {name}" for doc in context_docs if code)))\<close>, where
  \<open>code\<close> and \<open>name\<close> are \<open>doc['metadata'].get(...)\<close>: an absent name prints as \<open>None\<close>.
\<close>

definition course_label :: "doc \<Rightarrow> string" where
  "course_label d =
     (case map_of (doc_metadata d) ''course_code'' of None \<Rightarrow> ''None'' | Some s \<Rightarrow> s) @
     '' - '' @
     (case map_of (doc_metadata d) ''course_name'' of None \<Rightarrow> ''None'' | Some s \<Rightarrow> s)"

definition has_course_code :: "doc \<Rightarrow> bool" where
  "has_course_code d =
     (case map_of (doc_metadata d) ''course_code'' of None \<Rightarrow> False | Some s \<Rightarrow> s \<noteq> [])"

definition relevant_courses_of :: "doc list \<Rightarrow> string list" where
  "relevant_courses_of context_docs =
     sorted_list_of_set (set (map course_label (filter has_course_code context_docs)))"

definition chat :: "chatbot \<Rightarrow> string \<Rightarrow> int \<Rightarrow> error + chat_result" where
  "chat st query n_context =
     (case retrieve_context st query n_context of
        Inl e \<Rightarrow> Inl e
      | Inr context_docs \<Rightarrow>
          Inr \<lparr>res_query = query,
               answer = generate_enhanced_response st query context_docs,
               context_used = length context_docs,
               relevant_courses = relevant_courses_of context_docs\<rparr>)"

section \<open>The follow-up suggester (app.py)\<close>

definition get_default_questions :: "string list" where
  "get_default_questions =
     [''What courses are offered in Engineering?'',
      ''What is the fee for an MBA?'',
      ''What are the eligibility criteria for B.Tech?'',
      ''Tell me about the scholarship policy'',
      ''How do I apply for a Ph.D.?'']"

text \<open>
  The values \<open>ast.literal_eval\<close> can return. A chat turn is a \<open>Dict[str, str]\<close>: a
  list of items, so a turn may lack the key \<open>type\<close> or \<open>message\<close>.
\<close>

datatype pyval =
    PNone
  | PBool bool
  | PInt int
  | PStr string
  | PBytes string
  | PList "pyval list"
  | PTuple "pyval list"
  | PSet "pyval list"
  | PDict "(pyval \<times> pyval) list"

type_synonym turn = "(string \<times> string) list"

text \<open>
  \<open>next((item['message'] for item in reversed(chat_history) if item['type'] == 'user'), None)\<close>,
  over the turns already reversed.
\<close>

fun last_user_message :: "turn list \<Rightarrow> error + string option" where
  "last_user_message [] = Inr None"
| "last_user_message (item # older) =
     (case map_of item ''type'' of
        None \<Rightarrow> Inl (KeyError ''type'')
      | Some t \<Rightarrow>
          (if t = ''user'' then
             (case map_of item ''message'' of
                None \<Rightarrow> Inl (KeyError ''message'')
              | Some m \<Rightarrow> Inr (Some m))
           else last_user_message older))"

definition followup_prompt :: "string \<Rightarrow> string" where
  "followup_prompt context =
     ''\<newline>'' @
     ''    Based on the provided context from a university admissions guide, suggest 4 short, relevant follow-up questions a prospective student might ask next.\<newline>'' @
     ''    CRITICAL: The questions MUST be answerable using ONLY the information in the context below. Do not suggest questions if the answer is not in the text.\<newline>'' @
     ''    Return ONLY a Python-parseable list of strings. For example: [\"Question 1?\", \"Question 2?\", \"Question 3?\", \"Question 4?\"]\<newline>'' @
     ''\<newline>'' @
     ''    Context:\<newline>'' @
     ''    ---\<newline>'' @
     ''    '' @ context @ ''\<newline>'' @
     ''    ---\<newline>'' @
     ''\<newline>'' @
     ''    Suggested Questions (Python list of strings):\<newline>'' @
     ''    ''"

definition is_pstr :: "pyval \<Rightarrow> bool" where
  "is_pstr v = (case v of PStr s \<Rightarrow> True | _ \<Rightarrow> False)"

definition pstr_of :: "pyval \<Rightarrow> string" where
  "pstr_of v = (case v of PStr s \<Rightarrow> s | _ \<Rightarrow> [])"

text \<open>
  \<open>generate_followup_questions\<close>. The module's collaborators are arguments:
  \<open>retriever\<close> is the global \<open>vector_store_retriever\<close> (\<open>None\<close> until the RAG chain is
  initialised), giving the page contents of the documents it finds or the text of the
  exception it raises; \<open>llm\<close> is \<open>llm.invoke(prompt).content\<close>; \<open>literal_eval\<close> is
  \<open>ast.literal_eval\<close>. The last two run inside the \<open>try\<close>, whose handlers all return
  the default questions. The opening test \<open>not chat_history or not vector_store_retriever\<close>
  reads two values and raises nothing, so the model may look at the retriever first.
\<close>

definition generate_followup_questions ::
  "(string \<Rightarrow> string + string list) option \<Rightarrow> (string \<Rightarrow> string + string) \<Rightarrow>
   (string \<Rightarrow> string + pyval) \<Rightarrow> turn list \<Rightarrow> error + string list" where
  "generate_followup_questions retriever llm literal_eval chat_history =
     (case retriever of
        None \<Rightarrow> Inr get_default_questions
      | Some get_relevant_documents \<Rightarrow>
          (if chat_history = [] then Inr get_default_questions
           else
             (case last_user_message (rev chat_history) of
                Inl e \<Rightarrow> Inl e
              | Inr None \<Rightarrow> Inr get_default_questions
              | Inr (Some message) \<Rightarrow>
                  (if message = [] then Inr get_default_questions
                   else
                     (case get_relevant_documents message of
                        Inl msg \<Rightarrow> Inl (ProviderError msg)
                      | Inr relevant_docs \<Rightarrow>
                          (case llm (followup_prompt (join ''\<newline>\<newline>'' relevant_docs)) of
                             Inl msg \<Rightarrow> Inr get_default_questions
                           | Inr response_content \<Rightarrow>
                               (case literal_eval response_content of
                                  Inl msg \<Rightarrow> Inr get_default_questions
                                | Inr (PList suggested_questions) \<Rightarrow>
                                    (if list_all is_pstr suggested_questions
                                     then Inr (map pstr_of suggested_questions)
                                     else Inr get_default_questions)
                                | Inr _ \<Rightarrow> Inr get_default_questions)))))))"

section \<open>Properties\<close>

subsection \<open>Retrieval needs an active collection\<close>

text \<open>
  No step of \<open>enhance_query\<close> raises a \<open>ValueError\<close>: its exceptions are the
  \<open>KeyError\<close>, \<open>TypeError\<close> and \<open>AttributeError\<close> of a subscript, a slice, a
  \<open>join\<close> or a method call on a value of the wrong type.
\<close>

lemma py_item_not_ValueError: "py_item x key \<noteq> Inl (ValueError m)"
  by (simp add: py_item_def split: json.splits option.splits)

lemma join_items_not_ValueError: "join_items sep items \<noteq> Inl (ValueError m)"
  by (simp add: join_items_def)

lemma course_names_not_ValueError: "course_names cs \<noteq> Inl (ValueError m)"
  by (induction cs) (auto simp: py_item_not_ValueError split: sum.splits)

lemma first_two_not_ValueError: "first_two v \<noteq> Inl (ValueError m)"
  by (simp add: first_two_def split: json.splits)

lemma concept_terms_not_ValueError: "concept_terms ql kvs \<noteq> Inl (ValueError m)"
  by (induction ql kvs rule: concept_terms.induct)
     (auto simp: first_two_not_ValueError split: sum.splits)

lemma semester_terms_not_ValueError: "semester_terms st ql \<noteq> Inl (ValueError m)"
  by (simp add: semester_terms_def course_names_not_ValueError split: option.splits)

lemma course_code_terms_not_ValueError: "course_code_terms st q \<noteq> Inl (ValueError m)"
  by (auto simp: course_code_terms_def py_item_not_ValueError
           split: option.splits sum.splits json.splits)

lemma enhance_query_not_ValueError: "enhance_query st q \<noteq> Inl (ValueError m)"
  by (auto simp: enhance_query_def Let_def semester_terms_not_ValueError
                 course_code_terms_not_ValueError concept_terms_not_ValueError
                 join_items_not_ValueError
           split: sum.splits json.splits)

text \<open>
  C3. For every query and every \<open>n_results\<close>, \<open>retrieve_context\<close> fails with the
  not-initialised error (the source's \<open>ValueError("Vector store not initialized.")\<close>)
  exactly when the chatbot has no active collection: it raises it whenever
  \<open>self.collection\<close> is unset, and with a collection set it never fails for that reason
  (a failure of the vector store itself is a \<open>ProviderError\<close>, one of query enhancement
  a \<open>KeyError\<close>, \<open>TypeError\<close> or \<open>AttributeError\<close>).
\<close>

theorem retrieve_context_not_initialized:
  "(retrieve_context st query n_results = Inl (ValueError ''Vector store not initialized.''))
   = (collection st = None)"
  by (auto simp: retrieve_context_def enhance_query_not_ValueError
           split: option.splits sum.splits)

subsection \<open>Choice of the prompt template\<close>

lemma prompts_differ: "syllabus_prompt c q \<noteq> default_prompt c' q'"
  by (simp only: syllabus_prompt_def default_prompt_def append.simps list.inject
                 char.inject simp_thms)

lemma if_eq_then: "b \<noteq> a \<Longrightarrow> ((if P then a else b) = a) = P"
  by auto

lemma if_eq_else: "b \<noteq> a \<Longrightarrow> ((if P then a else b) = b) = (\<not> P)"
  by auto

text \<open>
  Lowercasing on ASCII text, stated without the table of the definition: it works
  character by character, turns the 26 capital letters into the small ones and leaves
  every other character as it is.
\<close>

lemma str_lower_append: "str_lower (a @ b) = str_lower a @ str_lower b"
  by (simp add: str_lower_def)

lemma str_lower_capitals:
  "str_lower ''ABCDEFGHIJKLMNOPQRSTUVWXYZ'' = ''abcdefghijklmnopqrstuvwxyz''"
  by (simp add: str_lower_def)

lemma str_lower_other:
  "c \<notin> set ''ABCDEFGHIJKLMNOPQRSTUVWXYZ'' \<Longrightarrow> str_lower (c # s) = c # str_lower s"
  by (simp add: str_lower_def)

lemma syllabus_only_query:
  "sublist ''syllabus'' (str_lower ''give me the syllabus for 23BS1101'') \<and>
   \<not> (\<exists>keyword \<in> set [''book'', ''overview'', ''credit'', ''outcome'', ''prerequisite''].
         sublist keyword (str_lower ''give me the syllabus for 23BS1101''))"
  by code_simp

lemma syllabus_and_credits_query:
  "sublist ''credit'' (str_lower ''what is the syllabus overview and credits for 23BS1101'')"
  by code_simp

lemma capital_syllabus_query:
  "sublist ''syllabus'' (str_lower ''Give me the SYLLABUS of 23BS1101'') \<and>
   \<not> (\<exists>keyword \<in> set [''book'', ''overview'', ''credit'', ''outcome'', ''prerequisite''].
         sublist keyword (str_lower ''Give me the SYLLABUS of 23BS1101''))"
  by code_simp

lemma capital_books_query:
  "sublist ''book'' (str_lower ''Syllabus and BOOKS of 23BS1101'')"
  by code_simp

lemma no_syllabus_query:
  "\<not> sublist ''syllabus'' (str_lower ''Which units does 23BS1101 have?'')"
  by code_simp

text \<open>
  C6. For every query of ASCII characters, the prompt handed to the model is the
  narrow syllabus-only template if and only if the lowercased query contains
  \<open>syllabus\<close> and none of \<open>book\<close>, \<open>overview\<close>, \<open>credit\<close>, \<open>outcome\<close>,
  \<open>prerequisite\<close>; otherwise it is the default template (the two templates never
  coincide). Lowercasing turns the capital letters into small ones, character by
  character, and changes nothing else. The query \<open>give me the syllabus for 23BS1101\<close>
  gets the narrow template, and so does \<open>Give me the SYLLABUS of 23BS1101\<close>;
  \<open>what is the syllabus overview and credits for 23BS1101\<close> gets the default one, and
  so do \<open>Syllabus and BOOKS of 23BS1101\<close> and a query without the word.
\<close>

theorem prompt_template_selection:
  assumes "is_ascii query"
  shows "(compose_prompt query docs =
      syllabus_prompt (join ''\<newline>---\<newline>'' (map context_part docs)) query)
   = (sublist ''syllabus'' (str_lower query) \<and>
      \<not> (\<exists>keyword \<in> set [''book'', ''overview'', ''credit'', ''outcome'', ''prerequisite''].
            sublist keyword (str_lower query)))
   \<and> (compose_prompt query docs =
      default_prompt (join ''\<newline>---\<newline>'' (map context_part docs)) query)
   = (\<not> (sublist ''syllabus'' (str_lower query) \<and>
      \<not> (\<exists>keyword \<in> set [''book'', ''overview'', ''credit'', ''outcome'', ''prerequisite''].
            sublist keyword (str_lower query))))
   \<and> (\<forall>a b. str_lower (a @ b) = str_lower a @ str_lower b)
   \<and> str_lower ''ABCDEFGHIJKLMNOPQRSTUVWXYZ'' = ''abcdefghijklmnopqrstuvwxyz''
   \<and> (\<forall>c s. c \<notin> set ''ABCDEFGHIJKLMNOPQRSTUVWXYZ'' \<longrightarrow> str_lower (c # s) = c # str_lower s)
   \<and> compose_prompt ''give me the syllabus for 23BS1101'' docs =
      syllabus_prompt (join ''\<newline>---\<newline>'' (map context_part docs))
        ''give me the syllabus for 23BS1101''
   \<and> compose_prompt ''what is the syllabus overview and credits for 23BS1101'' docs =
      default_prompt (join ''\<newline>---\<newline>'' (map context_part docs))
        ''what is the syllabus overview and credits for 23BS1101''
   \<and> compose_prompt ''Give me the SYLLABUS of 23BS1101'' docs =
      syllabus_prompt (join ''\<newline>---\<newline>'' (map context_part docs))
        ''Give me the SYLLABUS of 23BS1101''
   \<and> compose_prompt ''Syllabus and BOOKS of 23BS1101'' docs =
      default_prompt (join ''\<newline>---\<newline>'' (map context_part docs))
        ''Syllabus and BOOKS of 23BS1101''
   \<and> compose_prompt ''Which units does 23BS1101 have?'' docs =
      default_prompt (join ''\<newline>---\<newline>'' (map context_part docs))
        ''Which units does 23BS1101 have?''"
proof -
  let ?C = "join ''\<newline>---\<newline>'' (map context_part docs)"
  let ?K = "set [''book'', ''overview'', ''credit'', ''outcome'', ''prerequisite'']"
  have differ: "default_prompt ?C query \<noteq> syllabus_prompt ?C query"
    using prompts_differ [of ?C query ?C query] by (rule not_sym)
  have narrow_iff: "(compose_prompt query docs = syllabus_prompt ?C query)
     = (sublist ''syllabus'' (str_lower query) \<and>
        \<not> (\<exists>keyword \<in> ?K. sublist keyword (str_lower query)))"
    unfolding compose_prompt_def Let_def by (rule if_eq_then [OF differ])
  have default_iff: "(compose_prompt query docs = default_prompt ?C query)
     = (\<not> (sublist ''syllabus'' (str_lower query) \<and>
        \<not> (\<exists>keyword \<in> ?K. sublist keyword (str_lower query))))"
    unfolding compose_prompt_def Let_def by (rule if_eq_else [OF differ])
  have narrow: "compose_prompt q docs = syllabus_prompt ?C q"
    if "sublist ''syllabus'' (str_lower q) \<and>
        \<not> (\<exists>keyword \<in> ?K. sublist keyword (str_lower q))" for q
    unfolding compose_prompt_def Let_def using that by (simp only: if_True simp_thms)
  have wide: "compose_prompt q docs = default_prompt ?C q"
    if "\<not> sublist ''syllabus'' (str_lower q) \<or>
        (\<exists>keyword \<in> ?K. sublist keyword (str_lower q))" for q
  proof -
    from that have "\<not> (sublist ''syllabus'' (str_lower q) \<and>
        \<not> (\<exists>keyword \<in> ?K. sublist keyword (str_lower q)))" by blast
    then show ?thesis
      unfolding compose_prompt_def Let_def by (simp only: if_False simp_thms)
  qed
  have credit: "\<exists>keyword \<in> ?K. sublist keyword
       (str_lower ''what is the syllabus overview and credits for 23BS1101'')"
    using syllabus_and_credits_query by (intro bexI [of _ "''credit''"]) simp_all
  have book: "\<exists>keyword \<in> ?K. sublist keyword (str_lower ''Syllabus and BOOKS of 23BS1101'')"
    using capital_books_query by (intro bexI [of _ "''book''"]) simp_all
  have e1: "compose_prompt ''give me the syllabus for 23BS1101'' docs =
      syllabus_prompt ?C ''give me the syllabus for 23BS1101''"
    by (rule narrow [OF syllabus_only_query])
  have e2: "compose_prompt ''what is the syllabus overview and credits for 23BS1101'' docs =
      default_prompt ?C ''what is the syllabus overview and credits for 23BS1101''"
    by (rule wide [OF disjI2 [OF credit]])
  have e3: "compose_prompt ''Give me the SYLLABUS of 23BS1101'' docs =
      syllabus_prompt ?C ''Give me the SYLLABUS of 23BS1101''"
    by (rule narrow [OF capital_syllabus_query])
  have e4: "compose_prompt ''Syllabus and BOOKS of 23BS1101'' docs =
      default_prompt ?C ''Syllabus and BOOKS of 23BS1101''"
    by (rule wide [OF disjI2 [OF book]])
  have e5: "compose_prompt ''Which units does 23BS1101 have?'' docs =
      default_prompt ?C ''Which units does 23BS1101 have?''"
    by (rule wide [OF disjI1 [OF no_syllabus_query]])
  have l1: "\<forall>a b. str_lower (a @ b) = str_lower a @ str_lower b"
    by (simp only: str_lower_append simp_thms)
  have l3: "\<forall>c s. c \<notin> set ''ABCDEFGHIJKLMNOPQRSTUVWXYZ'' \<longrightarrow> str_lower (c # s) = c # str_lower s"
    using str_lower_other by blast
  from narrow_iff default_iff l1 str_lower_capitals l3 e1 e2 e3 e4 e5 show ?thesis
    by (intro conjI)
qed

theorem prompt_template_selection_witness:
  "is_ascii ''Give me the SYLLABUS of 23BS1101''
   \<and> compose_prompt ''Give me the SYLLABUS of 23BS1101'' [] =
       syllabus_prompt [] ''Give me the SYLLABUS of 23BS1101''
   \<and> is_ascii ''Syllabus and BOOKS of 23BS1101''
   \<and> compose_prompt ''Syllabus and BOOKS of 23BS1101'' [] =
       default_prompt [] ''Syllabus and BOOKS of 23BS1101''"
proof -
  have a1: "is_ascii ''Give me the SYLLABUS of 23BS1101''" by (simp add: is_ascii_def)
  have a2: "is_ascii ''Syllabus and BOOKS of 23BS1101''" by (simp add: is_ascii_def)
  from prompt_template_selection [OF a1, of "[]"] capital_syllabus_query
  have "compose_prompt ''Give me the SYLLABUS of 23BS1101'' [] =
       syllabus_prompt [] ''Give me the SYLLABUS of 23BS1101''"
    by (simp only: list.map join.simps)
  moreover
  from prompt_template_selection [OF a2, of "[]"] capital_books_query
  have "compose_prompt ''Syllabus and BOOKS of 23BS1101'' [] =
       default_prompt [] ''Syllabus and BOOKS of 23BS1101''"
    by (simp only: list.map join.simps)
  ultimately show ?thesis using a1 a2 by (intro conjI)
qed

subsection \<open>Failures of the generator\<close>

text \<open>
  How \<open>generate_enhanced_response\<close> ends: the function returns a string on every
  path, the model's answer or one of the two messages built in the \<open>except\<close> branch.
\<close>

lemma not_a_credential_error: "\<not> sublist ''API key not valid'' ''429 quota exceeded''"
  by code_simp

lemma a_credential_error:
  "sublist ''API key not valid'' ''400 API key not valid. Please pass a valid API key.''"
  by code_simp

text \<open>
  C4, as the code has it. When the model call raises, \<open>generate_enhanced_response\<close>
  returns a message and raises nothing. A failure whose text contains
  \<open>API key not valid\<close> gives the fixed administrator-facing message. Every other
  failure gives \<open>Sorry, I encountered an error generating the response: \<close> followed by
  the raw text of the exception: the provider's error string is part of the message.
\<close>

theorem generation_failure_message:
  "model st (compose_prompt query docs) = Inl error_message \<Longrightarrow>
   generate_enhanced_response st query docs =
     (if sublist ''API key not valid'' error_message
      then ''Sorry, there is an issue with the server's API key configuration. Please contact the administrator.''
      else ''Sorry, I encountered an error generating the response: '' @ error_message)"
  by (simp add: generate_enhanced_response_def)

theorem generation_failure_message_witness:
  "generate_enhanced_response
     (init_chatbot (\<lambda>prompt. Inl ''400 API key not valid. Please pass a valid API key.''))
     ''what is CS101 about'' [] =
   ''Sorry, there is an issue with the server's API key configuration. Please contact the administrator.''
   \<and> generate_enhanced_response (init_chatbot (\<lambda>prompt. Inl ''429 quota exceeded''))
     ''what is CS101 about'' [] =
   ''Sorry, I encountered an error generating the response: 429 quota exceeded''"
proof -
  have m1: "model (init_chatbot (\<lambda>prompt. Inl ''400 API key not valid. Please pass a valid API key.''))
              (compose_prompt ''what is CS101 about'' []) =
            Inl ''400 API key not valid. Please pass a valid API key.''"
    by (simp add: init_chatbot_def)
  have m2: "model (init_chatbot (\<lambda>prompt. Inl ''429 quota exceeded''))
              (compose_prompt ''what is CS101 about'' []) = Inl ''429 quota exceeded''"
    by (simp add: init_chatbot_def)
  show ?thesis
    using generation_failure_message [OF m1] generation_failure_message [OF m2]
          a_credential_error not_a_credential_error
    by (simp only: if_True if_False append.simps simp_thms)
qed

text \<open>
  The claim as the spec states it fails: a failure that is not a credential failure is
  answered with a message that contains the raw error string.
\<close>

theorem generation_failure_leaks_error_text:
  "model (init_chatbot (\<lambda>prompt. Inl ''429 quota exceeded''))
     (compose_prompt ''what is CS101 about'' []) = Inl ''429 quota exceeded''
   \<and> \<not> sublist ''API key not valid'' ''429 quota exceeded''
   \<and> sublist ''429 quota exceeded''
       (generate_enhanced_response (init_chatbot (\<lambda>prompt. Inl ''429 quota exceeded''))
          ''what is CS101 about'' [])"
proof -
  have "generate_enhanced_response (init_chatbot (\<lambda>prompt. Inl ''429 quota exceeded''))
          ''what is CS101 about'' [] =
        ''Sorry, I encountered an error generating the response: '' @ ''429 quota exceeded''"
    using not_a_credential_error by (simp add: generate_enhanced_response_def init_chatbot_def)
  moreover have "sublist ''429 quota exceeded''
      (''Sorry, I encountered an error generating the response: '' @ ''429 quota exceeded'')"
    by (rule sublist_append_leftI)
  ultimately show ?thesis
    using not_a_credential_error by (simp add: init_chatbot_def)
qed

subsection \<open>Follow-up questions\<close>

text \<open>
  The paths of \<open>generate_followup_questions\<close> that end in the default questions: an
  empty history, no retriever, no user turn (or an empty last user message), a failure
  of the model call or of \<open>ast.literal_eval\<close>, and a parsed value that is not a list of
  strings.
\<close>

lemma followup_defaults_without_context:
  "chat_history = [] \<or> retriever = None \<Longrightarrow>
   generate_followup_questions retriever llm literal_eval chat_history =
     Inr get_default_questions"
  by (auto simp: generate_followup_questions_def split: option.splits)

lemma followup_defaults_without_user_turn:
  "last_user_message (rev chat_history) = Inr None \<Longrightarrow>
   generate_followup_questions retriever llm literal_eval chat_history =
     Inr get_default_questions"
  by (auto simp: generate_followup_questions_def split: option.splits)

lemma followup_defaults_inside_try:
  assumes "last_user_message (rev chat_history) = Inr (Some message)"
      and "get_relevant_documents message = Inr relevant_docs"
      and "llm (followup_prompt (join ''\<newline>\<newline>'' relevant_docs)) = Inl msg \<or>
           (\<exists>out. llm (followup_prompt (join ''\<newline>\<newline>'' relevant_docs)) = Inr out \<and>
              (case literal_eval out of
                 Inl msg' \<Rightarrow> True
               | Inr (PList qs) \<Rightarrow> \<not> list_all is_pstr qs
               | Inr _ \<Rightarrow> True))"
  shows "generate_followup_questions (Some get_relevant_documents) llm literal_eval chat_history =
           Inr get_default_questions"
proof -
  let ?p = "followup_prompt (join ''\<newline>\<newline>'' relevant_docs)"
  have unfold: "generate_followup_questions (Some get_relevant_documents) llm literal_eval
                  chat_history =
          (if chat_history = [] \<or> message = [] then Inr get_default_questions
           else (case llm ?p of
                   Inl msg \<Rightarrow> Inr get_default_questions
                 | Inr response_content \<Rightarrow>
                     (case literal_eval response_content of
                        Inl msg \<Rightarrow> Inr get_default_questions
                      | Inr (PList suggested_questions) \<Rightarrow>
                          (if list_all is_pstr suggested_questions
                           then Inr (map pstr_of suggested_questions)
                           else Inr get_default_questions)
                      | Inr _ \<Rightarrow> Inr get_default_questions)))"
    using assms(1,2) by (simp add: generate_followup_questions_def)
  from assms(3) show ?thesis
  proof
    assume "llm ?p = Inl msg"
    then show ?thesis by (simp add: unfold)
  next
    assume "\<exists>out. llm ?p = Inr out \<and>
              (case literal_eval out of
                 Inl msg' \<Rightarrow> True
               | Inr (PList qs) \<Rightarrow> \<not> list_all is_pstr qs
               | Inr _ \<Rightarrow> True)"
    then obtain out where out: "llm ?p = Inr out"
      and bad: "case literal_eval out of
                 Inl msg' \<Rightarrow> True
               | Inr (PList qs) \<Rightarrow> \<not> list_all is_pstr qs
               | Inr _ \<Rightarrow> True"
      by blast
    show ?thesis
    proof (cases "literal_eval out")
      case (Inl m)
      with out show ?thesis by (simp add: unfold)
    next
      case (Inr v)
      with out bad show ?thesis by (cases v) (simp_all add: unfold)
    qed
  qed
qed

text \<open>
  C2, as the code has it. When the model's output parses as a list of strings, the
  suggester returns exactly that list, with as many questions as the model wrote: the
  code asks the model for 4 questions and does not check how many it got.
\<close>

theorem followup_returns_parsed_list:
  assumes "last_user_message (rev chat_history) = Inr (Some message)"
      and "message \<noteq> []"
      and "get_relevant_documents message = Inr relevant_docs"
      and "llm (followup_prompt (join ''\<newline>\<newline>'' relevant_docs)) = Inr out"
      and "literal_eval out = Inr (PList questions)"
      and "list_all is_pstr questions"
  shows "generate_followup_questions (Some get_relevant_documents) llm literal_eval chat_history =
           Inr (map pstr_of questions)"
proof -
  from assms(1) have "chat_history \<noteq> []"
    by (cases chat_history) auto
  with assms show ?thesis
    by (simp add: generate_followup_questions_def)
qed

theorem followup_returns_parsed_list_witness:
  "generate_followup_questions
     (Some (\<lambda>message. Inr [''Fees are listed per programme.'']))
     (\<lambda>prompt. Inr ''[\"A?\", \"B?\", \"C?\", \"D?\"]'')
     (\<lambda>out. Inr (PList [PStr ''A?'', PStr ''B?'', PStr ''C?'', PStr ''D?'']))
     [[(''type'', ''user''), (''message'', ''What is the fee?'')],
      [(''type'', ''ai''), (''message'', ''See the fee table.'')]] =
   Inr [''A?'', ''B?'', ''C?'', ''D?'']"
  using followup_returns_parsed_list
          [of "[[(''type'', ''user''), (''message'', ''What is the fee?'')],
                [(''type'', ''ai''), (''message'', ''See the fee table.'')]]"
              "''What is the fee?''"
              "\<lambda>message. Inr [''Fees are listed per programme.'']"
              "[''Fees are listed per programme.'']"
              "\<lambda>prompt. Inr ''[\"A?\", \"B?\", \"C?\", \"D?\"]''"
              "''[\"A?\", \"B?\", \"C?\", \"D?\"]''"
              "\<lambda>out. Inr (PList [PStr ''A?'', PStr ''B?'', PStr ''C?'', PStr ''D?''])"
              "[PStr ''A?'', PStr ''B?'', PStr ''C?'', PStr ''D?'']"]
  by (simp add: is_pstr_def pstr_of_def)

text \<open>
  The claim as the spec states it fails: a model that answers with a one-element list
  makes the suggester succeed with one question, not four.
\<close>

theorem followup_one_question:
  "generate_followup_questions
     (Some (\<lambda>message. Inr [''Fees are listed per programme.'']))
     (\<lambda>prompt. Inr ''[\"What is the fee for an MBA?\"]'')
     (\<lambda>out. if out = ''[\"What is the fee for an MBA?\"]''
             then Inr (PList [PStr ''What is the fee for an MBA?''])
             else Inl ''invalid syntax'')
     [[(''type'', ''user''), (''message'', ''What is the fee?'')],
      [(''type'', ''ai''), (''message'', ''See the fee table.'')]] =
   Inr [''What is the fee for an MBA?'']
   \<and> length [''What is the fee for an MBA?''] \<noteq> 4"
  by (simp add: generate_followup_questions_def is_pstr_def pstr_of_def)

text \<open>
  C7. The claim holds on every path listed above, and fails where the code leaves the
  retrieval outside its \<open>try\<close>: \<open>vector_store_retriever.get_relevant_documents\<close> is
  called before the \<open>try\<close> block, so an exception of the retriever (and the
  \<open>KeyError\<close> of a turn without \<open>type\<close> or \<open>message\<close>) leaves the function instead of
  being answered with the default questions.
\<close>

theorem followup_retriever_failure_propagates:
  "generate_followup_questions
     (Some (\<lambda>message. Inl ''503 embedding service unavailable''))
     llm literal_eval
     [[(''type'', ''user''), (''message'', ''What is the fee?'')],
      [(''type'', ''ai''), (''message'', ''See the fee table.'')]] =
   Inl (ProviderError ''503 embedding service unavailable'')"
  by (simp add: generate_followup_questions_def)

lemma followup_malformed_turn_propagates:
  "generate_followup_questions (Some get_relevant_documents) llm literal_eval
     [[(''message'', ''What is the fee?'')]] = Inl (KeyError ''type'')"
  by (simp add: generate_followup_questions_def)

subsection \<open>Malformed course records\<close>

text \<open>
  Inside the loop a record whose metadata lacks a course code, a course name or a
  semester (or holds an empty or null one) is passed over: the loop gives the same
  result with the record removed.
\<close>

lemma skipped_course_unchanged:
  "dict_get c ''metadata'' (JDict []) = JDict metadata \<Longrightarrow> skipped metadata \<Longrightarrow>
   process_course st (JDict c) = Inr st"
  by (simp add: process_course_def)

lemma process_courses_skips:
  "dict_get c ''metadata'' (JDict []) = JDict metadata \<Longrightarrow> skipped metadata \<Longrightarrow>
   process_courses st (before @ JDict c # after) = process_courses st (before @ after)"
  by (induction before arbitrary: st) (simp_all add: skipped_course_unchanged split: sum.splits)

text \<open>A record without a course name is left out, and the load completes.\<close>

lemma load_data_missing_course_name:
  "(case load_data (init_chatbot generative_model)
           (JList [JDict [(''metadata'', JDict [(''course_code'', JStr ''CS101''),
                                                (''semester'', JStr ''1'')])]])
           None of
      Inl e \<Rightarrow> False
    | Inr st \<Rightarrow> chunks_data st = [] \<and> semester_course_map st = [])"
  by (simp add: load_data_def py_iter_def py_item_def dict_key_def process_course_def
                dict_get_def skipped_def has_len_def init_chatbot_def)

text \<open>
  C1. The claim fails for a record without a course code. Before the loop that skips
  malformed records, \<open>load_data\<close> builds \<open>course_details\<close> with
  \<open>course['metadata']['course_code']\<close>, a subscript that raises \<open>KeyError\<close> on the
  very records the loop would skip: the whole ingestion aborts.
\<close>

theorem load_data_missing_course_code_raises:
  "load_data (init_chatbot generative_model)
     (JList [JDict [(''metadata'', JDict [(''course_name'', JStr ''Intro to CS''),
                                          (''semester'', JStr ''1'')])]])
     None = Inl (KeyError ''course_code'')"
  by (simp add: load_data_def py_iter_def py_item_def)

subsection \<open>The courses a chat answer lists\<close>

lemma relevant_courses_of_props:
  "distinct (relevant_courses_of docs) \<and> sorted (relevant_courses_of docs) \<and>
   set (relevant_courses_of docs) = course_label ` {d \<in> set docs. has_course_code d}"
  by (auto simp: relevant_courses_of_def)

text \<open>
  C10, as the code has it. The \<open>relevant_courses\<close> of a chat result is duplicate-free
  and sorted in ascending string order, and its entries are exactly the labels
  \<open><course_code> - <course_name>\<close> of the retrieved documents whose metadata has a
  non-empty course code: one entry per distinct label. A document without a course code
  (or with an empty one) contributes nothing.
\<close>

theorem chat_relevant_courses:
  assumes "chat st query n_context = Inr r"
  shows "\<exists>docs. retrieve_context st query n_context = Inr docs \<and>
           distinct (relevant_courses r) \<and> sorted (relevant_courses r) \<and>
           set (relevant_courses r) = course_label ` {d \<in> set docs. has_course_code d}"
proof (cases "retrieve_context st query n_context")
  case (Inl e)
  with assms show ?thesis by (simp add: chat_def)
next
  case (Inr docs)
  with assms have "relevant_courses r = relevant_courses_of docs"
    by (auto simp: chat_def)
  with Inr relevant_courses_of_props [of docs] show ?thesis by simp
qed

lemma plain_query_not_enhanced:
  "enhance_query
     ((init_chatbot (\<lambda>prompt. Inr ''CS101 is an introduction.''))\<lparr>collection := Some coll\<rparr>)
     ''what is taught'' = Inr ''what is taught''"
proof -
  have "sem_search (str_lower ''what is taught'') = None" by code_simp
  moreover have "course_code_search (str_upper ''what is taught'') = None" by code_simp
  ultimately show ?thesis
    by (simp add: enhance_query_def semester_terms_def course_code_terms_def init_chatbot_def)
qed

lemma three_docs_labels:
  "relevant_courses_of
     [\<lparr>doc_content = ''Course Overview for Calculus (MA201)'',
       doc_metadata = [(''course_code'', ''MA201''), (''course_name'', ''Calculus'')],
       doc_distance = 0\<rparr>,
      \<lparr>doc_content = ''Question: fees? Answer: see the office.'',
       doc_metadata = [(''category'', ''general''), (''chunk_type'', ''faq'')],
       doc_distance = 0\<rparr>,
      \<lparr>doc_content = ''Course Overview for Intro to CS (CS101)'',
       doc_metadata = [(''course_code'', ''CS101''), (''course_name'', ''Intro to CS'')],
       doc_distance = 0\<rparr>]
   = [''CS101 - Intro to CS'', ''MA201 - Calculus'']"
  by code_simp

theorem chat_relevant_courses_witness:
  "relevant_courses
     (projr (chat
        ((init_chatbot (\<lambda>prompt. Inr ''CS101 is an introduction.''))
           \<lparr>collection := Some (\<lambda>enhanced n.
               Inr [\<lparr>doc_content = ''Course Overview for Calculus (MA201)'',
                      doc_metadata = [(''course_code'', ''MA201''), (''course_name'', ''Calculus'')],
                      doc_distance = 0\<rparr>,
                    \<lparr>doc_content = ''Question: fees? Answer: see the office.'',
                      doc_metadata = [(''category'', ''general''), (''chunk_type'', ''faq'')],
                      doc_distance = 0\<rparr>,
                    \<lparr>doc_content = ''Course Overview for Intro to CS (CS101)'',
                      doc_metadata = [(''course_code'', ''CS101''), (''course_name'', ''Intro to CS'')],
                      doc_distance = 0\<rparr>])\<rparr>)
        ''what is taught'' 10))
   = [''CS101 - Intro to CS'', ''MA201 - Calculus'']
   \<and> distinct [''CS101 - Intro to CS'', ''MA201 - Calculus'']
   \<and> sorted [''CS101 - Intro to CS'', ''MA201 - Calculus'']"
proof -
  let ?docs = "[\<lparr>doc_content = ''Course Overview for Calculus (MA201)'',
                      doc_metadata = [(''course_code'', ''MA201''), (''course_name'', ''Calculus'')],
                      doc_distance = 0\<rparr>,
                    \<lparr>doc_content = ''Question: fees? Answer: see the office.'',
                      doc_metadata = [(''category'', ''general''), (''chunk_type'', ''faq'')],
                      doc_distance = 0\<rparr>,
                    \<lparr>doc_content = ''Course Overview for Intro to CS (CS101)'',
                      doc_metadata = [(''course_code'', ''CS101''), (''course_name'', ''Intro to CS'')],
                      doc_distance = 0\<rparr>]"
  let ?st = "(init_chatbot (\<lambda>prompt. Inr ''CS101 is an introduction.''))
               \<lparr>collection := Some (\<lambda>enhanced n. Inr ?docs)\<rparr>"
  let ?r = "\<lparr>res_query = ''what is taught'',
             answer = generate_enhanced_response ?st ''what is taught'' ?docs,
             context_used = length ?docs,
             relevant_courses = relevant_courses_of ?docs\<rparr>"
  have run: "chat ?st ''what is taught'' 10 = Inr ?r"
    by (simp add: chat_def retrieve_context_def plain_query_not_enhanced)
  from chat_relevant_courses [OF run] three_docs_labels run show ?thesis
    by simp
qed

text \<open>
  The claim as stated fails: the entries are not one per course code. Two retrieved
  documents that carry the same course code under two course names give two entries.
\<close>

lemma two_names_labels:
  "relevant_courses_of
     [\<lparr>doc_content = ''Course Overview for Intro to CS (CS101)'',
       doc_metadata = [(''course_code'', ''CS101''), (''course_name'', ''Intro to CS'')],
       doc_distance = 0\<rparr>,
      \<lparr>doc_content = ''Course Overview for Introduction to CS (CS101)'',
       doc_metadata = [(''course_code'', ''CS101''), (''course_name'', ''Introduction to CS'')],
       doc_distance = 0\<rparr>]
   = [''CS101 - Intro to CS'', ''CS101 - Introduction to CS'']"
  by code_simp

theorem chat_two_entries_for_one_course_code:
  "relevant_courses
     (projr (chat
        ((init_chatbot (\<lambda>prompt. Inr ''CS101 is an introduction.''))
           \<lparr>collection := Some (\<lambda>enhanced n.
               Inr [\<lparr>doc_content = ''Course Overview for Intro to CS (CS101)'',
                      doc_metadata = [(''course_code'', ''CS101''), (''course_name'', ''Intro to CS'')],
                      doc_distance = 0\<rparr>,
                    \<lparr>doc_content = ''Course Overview for Introduction to CS (CS101)'',
                      doc_metadata = [(''course_code'', ''CS101''),
                                      (''course_name'', ''Introduction to CS'')],
                      doc_distance = 0\<rparr>])\<rparr>)
        ''what is taught'' 10))
   = [''CS101 - Intro to CS'', ''CS101 - Introduction to CS'']"
  by (simp add: chat_def retrieve_context_def plain_query_not_enhanced two_names_labels)

subsection \<open>The outcomes chunk\<close>

lemma sublist_join: "x \<in> set xs \<Longrightarrow> sublist x (join sep xs)"
proof (induction sep xs rule: join.induct)
  case (3 sep a b bs)
  show ?case
  proof (cases "x = a")
    case True
    then show ?thesis by simp
  next
    case False
    with 3 have "sublist x (join sep (b # bs))" by simp
    then have "sublist x ((a @ sep) @ join sep (b # bs))"
      by (meson sublist_append_leftI sublist_order.order_trans)
    then show ?thesis by simp
  qed
qed simp_all

lemma unit_chunks_no_outcomes:
  "unit_chunks n code md units = Inr us \<Longrightarrow>
   filter (\<lambda>k. chunk_type k = ''outcomes'') us = []"
proof (induction n code md units arbitrary: us rule: unit_chunks.induct)
  case (2 n code md unit rest)
  then show ?case by (auto split: sum.splits)
qed simp_all

lemma books_chunks_no_outcomes:
  "books_chunks n code md books = Inr bs \<Longrightarrow>
   filter (\<lambda>k. chunk_type k = ''outcomes'') bs = []"
  by (auto simp: books_chunks_def Let_def split: json.splits sum.splits if_splits)

text \<open>The outcomes step alone: it raises only on an outcome that is not a string.\<close>

lemma outcomes_chunks_result:
  "outcomes_chunks n code md =
     (case dict_get md ''course_outcomes'' (JList []) of
        JList (x # xs) \<Rightarrow>
          (if list_all is_str (x # xs) then
             Inr [\<lparr>chunk_content = ''The course outcomes for '' @ py_str n @ '' ('' @
                                    py_str code @ '') are: '' @ join ''; '' (map str_of (x # xs)),
                   chunk_metadata = JDict md, chunk_type = ''outcomes''\<rparr>]
           else Inl TypeError)
      | _ \<Rightarrow> Inr [])"
  by (simp add: outcomes_chunks_def join_items_def split: json.splits list.splits)

lemma process_course_chunks:
  assumes "dict_get c ''metadata'' (JDict []) = JDict md"
      and "\<not> skipped md"
      and "process_course st (JDict c) = Inr st'"
  shows "\<exists>ov oc us bs.
           outcomes_chunks (dict_get md ''course_name'' JNull) (dict_get md ''course_code'' JNull) md
             = Inr oc \<and>
           chunk_type ov = ''overview'' \<and>
           filter (\<lambda>k. chunk_type k = ''outcomes'') us = [] \<and>
           filter (\<lambda>k. chunk_type k = ''outcomes'') bs = [] \<and>
           chunks_data st' = chunks_data st @ [ov] @ oc @ us @ bs"
proof -
  let ?n = "dict_get md ''course_name'' JNull" and ?code = "dict_get md ''course_code'' JNull"
  obtain oc where oc: "outcomes_chunks ?n ?code md = Inr oc"
    using assms by (cases "outcomes_chunks ?n ?code md") (simp_all add: process_course_def)
  obtain units where units: "py_iter (dict_get c ''syllabus'' (JList [])) = Inr units"
    using assms oc
    by (cases "py_iter (dict_get c ''syllabus'' (JList []))") (simp_all add: process_course_def)
  obtain us where us: "unit_chunks ?n ?code md units = Inr us"
    using assms oc units
    by (cases "unit_chunks ?n ?code md units") (simp_all add: process_course_def)
  obtain bs where bs: "books_chunks ?n ?code md (dict_get c ''books'' (JDict [])) = Inr bs"
    using assms oc units us
    by (cases "books_chunks ?n ?code md (dict_get c ''books'' (JDict []))")
       (simp_all add: process_course_def)
  let ?ov = "\<lparr>chunk_content =
                overview_content ?n ?code (py_str (dict_get md ''semester'' JNull)) md,
              chunk_metadata = JDict md, chunk_type = ''overview''\<rparr>"
  have "chunks_data st' = chunks_data st @ [?ov] @ oc @ us @ bs"
    using assms oc units us bs by (auto simp: process_course_def Let_def)
  moreover have "chunk_type ?ov = ''overview''" by simp
  ultimately show ?thesis
    using oc unit_chunks_no_outcomes [OF us] books_chunks_no_outcomes [OF bs] by blast
qed

text \<open>
  The loop body against the specification: a course that is processed without an
  exception appends the outcomes chunks the specification asks for, and its outcomes
  are strings.
\<close>

lemma process_course_outcomes:
  assumes "process_course st course = Inr st1"
  shows "filter (\<lambda>k. chunk_type k = ''outcomes'') (chunks_data st1) =
           filter (\<lambda>k. chunk_type k = ''outcomes'') (chunks_data st) @
           spec_outcomes_chunks course \<and>
         list_all is_str (record_outcomes course)"
proof (cases course)
  case (JDict c)
  show ?thesis
  proof (cases "dict_get c ''metadata'' (JDict [])")
    case md: (JDict metadata)
    show ?thesis
    proof (cases "skipped metadata")
      case True
      with JDict md assms have "st1 = st"
        by (simp add: skipped_course_unchanged)
      moreover from True JDict md have "record_metadata course = None"
        by (simp add: record_metadata_def)
      ultimately show ?thesis
        by (simp add: spec_outcomes_chunks_def record_outcomes_def)
    next
      case False
      let ?n = "dict_get metadata ''course_name'' JNull"
      let ?code = "dict_get metadata ''course_code'' JNull"
      let ?f = "filter (\<lambda>k. chunk_type k = ''outcomes'')"
      from assms JDict have run: "process_course st (JDict c) = Inr st1" by simp
      from process_course_chunks [OF md False run] obtain ov oc us bs where
        oc: "outcomes_chunks ?n ?code metadata = Inr oc" and
        ov: "chunk_type ov = ''overview''" and
        us: "?f us = []" and bs: "?f bs = []" and
        new: "chunks_data st1 = chunks_data st @ [ov] @ oc @ us @ bs"
        by blast
      from False JDict md have rm: "record_metadata course = Some metadata"
        by (simp add: record_metadata_def)
      have parts: "?f (chunks_data st1) = ?f (chunks_data st) @ ?f oc"
        using new ov us bs by simp
      have "oc = spec_outcomes_chunks course \<and> list_all is_str (record_outcomes course)"
      proof (cases "dict_get metadata ''course_outcomes'' (JList [])")
        case (JList outs)
        then have ro: "record_outcomes course = outs"
          by (simp add: record_outcomes_def rm)
        show ?thesis
        proof (cases outs)
          case Nil
          with JList oc ro rm show ?thesis
            by (simp add: outcomes_chunks_result spec_outcomes_chunks_def)
        next
          case (Cons x xs)
          with JList oc have strs: "list_all is_str (x # xs)"
            by (simp add: outcomes_chunks_result split: if_splits)
          with JList Cons oc ro rm show ?thesis
            by (simp add: outcomes_chunks_result spec_outcomes_chunks_def)
        qed
      qed (use oc rm in \<open>simp_all add: outcomes_chunks_result spec_outcomes_chunks_def
                                       record_outcomes_def\<close>)
      moreover have "?f (spec_outcomes_chunks course) = spec_outcomes_chunks course"
        by (simp add: spec_outcomes_chunks_def split: option.splits)
      ultimately show ?thesis using parts by simp
    qed
  qed (use assms JDict in \<open>simp_all add: process_course_def\<close>)
qed (use assms in \<open>simp_all add: process_course_def\<close>)

lemma process_courses_outcomes:
  "process_courses st courses = Inr st' \<Longrightarrow>
   filter (\<lambda>k. chunk_type k = ''outcomes'') (chunks_data st') =
     filter (\<lambda>k. chunk_type k = ''outcomes'') (chunks_data st) @
     concat (map spec_outcomes_chunks courses) \<and>
   (\<forall>course \<in> set courses. list_all is_str (record_outcomes course))"
proof (induction courses arbitrary: st)
  case Nil
  then show ?case by simp
next
  case (Cons course rest)
  from Cons.prems obtain st1 where
    one: "process_course st course = Inr st1" and
    more: "process_courses st1 rest = Inr st'"
    by (auto split: sum.splits)
  from process_course_outcomes [OF one] Cons.IH [OF more] show ?case by simp
qed

lemma spec_outcomes_chunk_contains:
  assumes "list_all is_str (record_outcomes course)"
      and "k \<in> set (spec_outcomes_chunks course)"
      and "outcome \<in> set (record_outcomes course)"
  shows "sublist (str_of outcome) (chunk_content k)"
proof -
  from assms(2) obtain metadata where
    k: "chunk_content k =
          (''The course outcomes for '' @ py_str (dict_get metadata ''course_name'' JNull) @
           '' ('' @ py_str (dict_get metadata ''course_code'' JNull) @ '') are: '') @
          join ''; '' (map str_of (record_outcomes course))"
    by (auto simp: spec_outcomes_chunks_def split: option.splits if_splits)
  from assms(3) have "str_of outcome \<in> set (map str_of (record_outcomes course))"
    by (simp only: set_map) blast
  then have "sublist (str_of outcome) (join ''; '' (map str_of (record_outcomes course)))"
    by (rule sublist_join)
  then show ?thesis
    unfolding k by (meson sublist_append_leftI sublist_order.order_trans)
qed

text \<open>
  C5. When \<open>load_data\<close> completes, the outcomes chunks it has added to \<open>chunks_data\<close>
  are, record by record in the order of the input, the ones the specification asks
  for: a record that is processed (not skipped) contributes an outcomes chunk if and
  only if its \<open>course_outcomes\<close> is a non-empty list, then exactly one, whose content
  is \<open>The course outcomes for <name> (<code>) are: \<close> followed by the outcomes joined
  with \<open>"; "\<close>; every outcome is a string and occurs in that content.
\<close>

theorem load_data_outcomes_chunks:
  assumes "load_data st restructured_data optimization_data = Inr st'"
  shows "\<exists>courses. py_iter restructured_data = Inr courses \<and>
           filter (\<lambda>k. chunk_type k = ''outcomes'') (chunks_data st') =
             filter (\<lambda>k. chunk_type k = ''outcomes'') (chunks_data st) @
             concat (map spec_outcomes_chunks courses) \<and>
           (\<forall>course \<in> set courses.
              length (spec_outcomes_chunks course) =
                (if record_outcomes course = [] then 0 else 1) \<and>
              (\<forall>k \<in> set (spec_outcomes_chunks course).
                 \<forall>outcome \<in> set (record_outcomes course).
                   is_str outcome \<and> sublist (str_of outcome) (chunk_content k)))"
proof -
  from assms obtain courses where courses: "py_iter restructured_data = Inr courses"
    by (cases "py_iter restructured_data") (simp_all add: load_data_def)
  from assms courses obtain details where
    details: "build_course_details (\<lambda>k. None) courses = Inr details"
    by (cases "build_course_details (\<lambda>k. None) courses") (simp_all add: load_data_def)
  from assms courses details obtain st1 where
    loop: "process_courses (st\<lparr>course_details := details\<rparr>) courses = Inr st1"
    by (cases "process_courses (st\<lparr>course_details := details\<rparr>) courses")
       (simp_all add: load_data_def)
  have same: "chunks_data st' = chunks_data st1"
    using assms courses details loop
    by (auto simp: load_data_def split: option.splits json.splits if_splits)
  from process_courses_outcomes [OF loop] have
    chunks: "filter (\<lambda>k. chunk_type k = ''outcomes'') (chunks_data st1) =
               filter (\<lambda>k. chunk_type k = ''outcomes'') (chunks_data st) @
               concat (map spec_outcomes_chunks courses)" and
    strs: "\<forall>course \<in> set courses. list_all is_str (record_outcomes course)"
    by simp_all
  have one: "length (spec_outcomes_chunks course) =
               (if record_outcomes course = [] then 0 else 1)" for course
    by (simp add: spec_outcomes_chunks_def record_outcomes_def split: option.splits)
  have inside: "is_str outcome \<and> sublist (str_of outcome) (chunk_content k)"
    if "course \<in> set courses" "k \<in> set (spec_outcomes_chunks course)"
       "outcome \<in> set (record_outcomes course)" for course k outcome
  proof -
    from strs that(1) have all: "list_all is_str (record_outcomes course)" by blast
    with that(3) have "is_str outcome" by (simp add: list_all_iff)
    with spec_outcomes_chunk_contains [OF all that(2,3)] show ?thesis by simp
  qed
  from courses chunks same one inside show ?thesis
    by (intro exI [of _ courses]) (simp only: simp_thms, blast)
qed

theorem load_data_outcomes_chunks_witness:
  "filter (\<lambda>k. chunk_type k = ''outcomes'')
     (chunks_data (projr (load_data (init_chatbot (\<lambda>prompt. Inr ''ok''))
        (JList
           [JDict [(''metadata'',
                    JDict [(''course_code'', JStr ''CS101''), (''course_name'', JStr ''Intro to CS''),
                           (''semester'', JStr ''1''),
                           (''course_outcomes'',
                            JList [JStr ''Understand loops'', JStr ''Write functions''])])],
            JDict [(''metadata'',
                    JDict [(''course_code'', JStr ''PH102''), (''course_name'', JStr ''Physics''),
                           (''course_outcomes'', JList [JStr ''Measure''])])],
            JDict [(''metadata'',
                    JDict [(''course_code'', JStr ''MA201''), (''course_name'', JStr ''Calculus''),
                           (''semester'', JInt 2), (''course_outcomes'', JList [])])]])
        None)))
   = [\<lparr>chunk_content =
         ''The course outcomes for Intro to CS (CS101) are: Understand loops; Write functions'',
       chunk_metadata =
         JDict [(''course_code'', JStr ''CS101''), (''course_name'', JStr ''Intro to CS''),
                (''semester'', JStr ''1''),
                (''course_outcomes'',
                 JList [JStr ''Understand loops'', JStr ''Write functions''])],
       chunk_type = ''outcomes''\<rparr>]"
proof -
  let ?r1 = "JDict [(''metadata'',
                    JDict [(''course_code'', JStr ''CS101''), (''course_name'', JStr ''Intro to CS''),
                           (''semester'', JStr ''1''),
                           (''course_outcomes'',
                            JList [JStr ''Understand loops'', JStr ''Write functions''])])]"
  let ?r2 = "JDict [(''metadata'',
                    JDict [(''course_code'', JStr ''PH102''), (''course_name'', JStr ''Physics''),
                           (''course_outcomes'', JList [JStr ''Measure''])])]"
  let ?r3 = "JDict [(''metadata'',
                    JDict [(''course_code'', JStr ''MA201''), (''course_name'', JStr ''Calculus''),
                           (''semester'', JInt 2), (''course_outcomes'', JList [])])]"
  let ?st = "init_chatbot (\<lambda>prompt. Inr ''ok'')"
  let ?run = "load_data ?st (JList [?r1, ?r2, ?r3]) None"
  have run: "?run = Inr (projr ?run)"
    by (simp add: load_data_def py_iter_def py_item_def dict_key_def process_course_def
                  dict_get_def skipped_def outcomes_chunks_def join_items_def is_str_def
                  books_chunks_def has_len_def Let_def)
  have start: "chunks_data ?st = []"
    by (simp add: init_chatbot_def)
  have s1: "spec_outcomes_chunks ?r1 =
      [\<lparr>chunk_content =
         ''The course outcomes for Intro to CS (CS101) are: Understand loops; Write functions'',
       chunk_metadata =
         JDict [(''course_code'', JStr ''CS101''), (''course_name'', JStr ''Intro to CS''),
                (''semester'', JStr ''1''),
                (''course_outcomes'',
                 JList [JStr ''Understand loops'', JStr ''Write functions''])],
       chunk_type = ''outcomes''\<rparr>]"
    by (simp add: spec_outcomes_chunks_def record_outcomes_def record_metadata_def
                  dict_get_def skipped_def str_of_def py_str_def)
  have s2: "spec_outcomes_chunks ?r2 = []"
    by (simp add: spec_outcomes_chunks_def record_outcomes_def record_metadata_def
                  dict_get_def skipped_def)
  have s3: "spec_outcomes_chunks ?r3 = []"
    by (simp add: spec_outcomes_chunks_def record_outcomes_def record_metadata_def
                  dict_get_def skipped_def)
  from load_data_outcomes_chunks [OF run] start s1 s2 s3 show ?thesis
    by (simp add: py_iter_def)
qed

subsection \<open>Query enhancement\<close>

text \<open>
  The two searches on ASCII text, at inputs that show the word boundaries, the optional
  \<open>ester\<close>, the optional white space, the leftmost match and the shape of a course
  code.
\<close>

lemma sem_search_examples:
  "sem_search ''what are the subjects in sem 3'' = Some ''3''"
  "sem_search ''semester12 courses'' = Some ''12''"
  "sem_search ''sem 03, then sem 4'' = Some ''03''"
  "sem_search ''sem 3a'' = None"
  "sem_search ''problems in sem'' = None"
  "sem_search ''possem 3'' = None"
  "sem_search ''SEM 3'' = None"
  "sem_search (str_lower ''SEM 3'') = Some ''3''"
  by code_simp+

lemma course_code_search_examples:
  "course_code_search (str_upper ''outcomes for 23bs1101?'') = Some ''23BS1101''"
  "course_code_search ''23ES&HS2203A and 23BS1101'' = Some ''23ES&HS2203A''"
  "course_code_search ''23b1101'' = None"
  "course_code_search ''123BS1101'' = None"
  "course_code_search ''23BS11012'' = None"
  "course_code_search ''23bs1101'' = None"
  by code_simp+




text \<open>The three rules on well-typed data: each yields strings and raises nothing.\<close>

lemma course_names_strings:
  "list_all (\<lambda>c. case py_item c ''course_name'' of Inr (JStr n) \<Rightarrow> True | _ \<Rightarrow> False) courses \<Longrightarrow>
   \<exists>names. course_names courses = Inr (map JStr names) \<and> length names = length courses"
proof (induction courses)
  case Nil
  then show ?case by simp
next
  case (Cons c cs)
  then obtain names where n: "course_names cs = Inr (map JStr names)"
    and l: "length names = length cs" by auto
  from Cons.prems obtain s where s: "py_item c ''course_name'' = Inr (JStr s)"
    by (auto split: sum.splits json.splits)
  have "course_names (c # cs) = Inr (map JStr (s # names))"
    by (simp add: n s)
  with l show ?case
    by (intro exI [of _ "s # names"]) simp
qed

lemma course_code_terms_strings:
  assumes "case course_code_search (str_upper query) of
             None \<Rightarrow> True
           | Some course_code \<Rightarrow>
               (case course_details st (JStr course_code) of
                  None \<Rightarrow> True
                | Some course \<Rightarrow>
                    (case py_item course ''metadata'' of
                       Inr (JDict metadata) \<Rightarrow> is_str (dict_get metadata ''course_name'' (JStr []))
                     | _ \<Rightarrow> False))"
  shows "\<exists>ts. course_code_terms st query = Inr ts \<and> list_all is_str ts"
  using assms
  by (auto simp: course_code_terms_def split: option.splits sum.splits json.splits)

lemma concept_terms_strings:
  "list_all (\<lambda>kv. case snd kv of JList ids \<Rightarrow> list_all is_str ids | _ \<Rightarrow> False) concepts \<Longrightarrow>
   \<exists>ts. concept_terms query_lower concepts = Inr ts \<and> list_all is_str ts"
proof (induction query_lower concepts rule: concept_terms.induct)
  case (1 query_lower)
  then show ?case by simp
next
  case (2 query_lower concept courses rest)
  from "2.prems" obtain ids where ids: "courses = JList ids" and strs: "list_all is_str ids"
    and rest: "list_all (\<lambda>kv. case snd kv of JList ids \<Rightarrow> list_all is_str ids | _ \<Rightarrow> False) rest"
    by (auto split: json.splits)
  have two: "first_two courses = Inr (take 2 ids)" "list_all is_str (take 2 ids)"
    using ids strs by (auto simp: first_two_def list_all_iff dest: in_set_takeD)
  show ?case
  proof (cases "sublist (str_lower concept) query_lower")
    case True
    with "2.IH"(1) [OF True two(1) rest] two show ?thesis by auto
  next
    case False
    with "2.IH"(2) [OF False rest] show ?thesis by auto
  qed
qed

lemma join_items_strings:
  "list_all is_str ts \<Longrightarrow> join_items sep ts = Inr (join sep (map str_of ts))"
  by (simp add: join_items_def)

lemma is_str_JStr: "list_all is_str (map JStr names)"
  by (induction names) (simp_all add: is_str_def)

lemma str_of_JStr: "map str_of (map JStr names) = names"
  by (induction names) (simp_all add: str_of_def)

text \<open>
  C8, as the code has it. \<open>re.search\<close> reports the first (leftmost) semester reference
  of the lowercased query. For a query and concept keys of ASCII characters: when the
  digits of that first reference are a key of the semester index, and the data is
  typed as the data model says (course names are strings, a known course has a
  metadata dict with a string name, the concept mapping is a dict of lists of strings),
  \<open>enhance_query\<close> returns the original query, a space, and the enhancement terms
  joined by spaces, the first of which are the names of all courses of that semester in
  the order of the semester index. The result contains the query and each of these
  names.
\<close>

theorem enhance_query_first_semester:
  assumes ascii: "is_ascii query"
      and first: "sem_search (str_lower query) = Some sem_num"
      and key: "map_of (semester_course_map st) sem_num = Some courses"
      and names_typed:
          "list_all (\<lambda>c. case py_item c ''course_name'' of Inr (JStr n) \<Rightarrow> True | _ \<Rightarrow> False)
             courses"
      and code_typed:
          "case course_code_search (str_upper query) of
             None \<Rightarrow> True
           | Some course_code \<Rightarrow>
               (case course_details st (JStr course_code) of
                  None \<Rightarrow> True
                | Some course \<Rightarrow>
                    (case py_item course ''metadata'' of
                       Inr (JDict metadata) \<Rightarrow> is_str (dict_get metadata ''course_name'' (JStr []))
                     | _ \<Rightarrow> False))"
      and mapping: "concept_mapping st = JDict concepts"
      and concepts_ascii: "list_all (\<lambda>kv. is_ascii (fst kv)) concepts"
      and concepts_typed:
          "list_all (\<lambda>kv. case snd kv of JList ids \<Rightarrow> list_all is_str ids | _ \<Rightarrow> False)
             concepts"
  shows "\<exists>names others enhanced.
           course_names courses = Inr (map JStr names) \<and>
           length names = length courses \<and>
           enhanced = (if names @ others = [] then query
                       else query @ '' '' @ join '' '' (names @ others)) \<and>
           enhance_query st query = Inr enhanced \<and>
           prefix query enhanced \<and>
           (\<forall>n \<in> set names. sublist n enhanced)"
proof -
  from course_names_strings [OF names_typed] obtain names where
    names: "course_names courses = Inr (map JStr names)" and
    len: "length names = length courses"
    by blast
  from course_code_terms_strings [OF code_typed] obtain code_part where
    code: "course_code_terms st query = Inr code_part" and code_strs: "list_all is_str code_part"
    by blast
  from concept_terms_strings [OF concepts_typed] obtain concept_part where
    concept: "concept_terms (str_lower query) concepts = Inr concept_part" and
    concept_strs: "list_all is_str concept_part"
    by blast
  let ?others = "map str_of code_part @ map str_of concept_part"
  let ?terms = "names @ ?others"
  let ?enhanced = "if ?terms = [] then query else query @ '' '' @ join '' '' ?terms"
  have sem: "semester_terms st (str_lower query) = Inr (map JStr names)"
    by (simp add: semester_terms_def first key names)
  have empty_iff: "(map JStr names @ code_part @ concept_part = []) = (?terms = [])"
    by simp
  have strs: "list_all is_str (map JStr names @ code_part @ concept_part)"
    using is_str_JStr [of names] code_strs concept_strs by simp
  have joined: "join_items '' '' (map JStr names @ code_part @ concept_part) =
                  Inr (join '' '' ?terms)"
  proof -
    have "map str_of (map JStr names @ code_part @ concept_part) = ?terms"
      by (simp only: map_append str_of_JStr)
    with join_items_strings [OF strs, of "'' ''"] show ?thesis by (simp only:)
  qed
  have result: "enhance_query st query = Inr ?enhanced"
  proof (cases "?terms = []")
    case True
    with empty_iff have "map JStr names @ code_part @ concept_part = []" by blast
    with True show ?thesis
      by (simp add: enhance_query_def sem code concept mapping Let_def)
  next
    case False
    with empty_iff have "map JStr names @ code_part @ concept_part \<noteq> []" by blast
    with False show ?thesis
      by (simp only: enhance_query_def sem code concept mapping Let_def joined
                     sum.case json.case if_False)
  qed
  have contained: "sublist n ?enhanced" if "n \<in> set names" for n
  proof -
    from that have in_terms: "n \<in> set ?terms" by simp
    then have "?terms \<noteq> []" by auto
    then have unfolded: "?enhanced = (query @ '' '') @ join '' '' ?terms"
      by (simp only: if_False append_assoc simp_thms)
    from in_terms have "sublist n (join '' '' ?terms)" by (rule sublist_join)
    then have "sublist n ((query @ '' '') @ join '' '' ?terms)"
      by (meson sublist_append_leftI sublist_order.order_trans)
    with unfolded show ?thesis by (simp only:)
  qed
  have "prefix query ?enhanced" by simp
  with names len result contained show ?thesis by blast
qed

lemma sem_3_reference: "sem_search (str_lower ''sem 3'') = Some ''3''"
  by code_simp

lemma sem_3_no_course_code: "course_code_search (str_upper ''sem 3'') = None"
  by code_simp

theorem enhance_query_first_semester_witness:
  "enhance_query
     ((init_chatbot (\<lambda>prompt. Inr ''ok''))
        \<lparr>semester_course_map :=
           [(''3'', [JDict [(''course_code'', JStr ''23MA3101''),
                            (''course_name'', JStr ''Probability''),
                            (''credits'', JInt 3), (''category'', JStr ''BS'')],
                     JDict [(''course_code'', JStr ''23CS3102''),
                            (''course_name'', JStr ''Data Structures''),
                            (''credits'', JInt 4), (''category'', JStr ''PC'')],
                     JDict [(''course_code'', JStr ''23EC3103''),
                            (''course_name'', JStr ''Digital Logic''),
                            (''credits'', JInt 3), (''category'', JStr ''ES'')]])]\<rparr>)
     ''sem 3'' = Inr ''sem 3 Probability Data Structures Digital Logic''
   \<and> enhance_query
     ((init_chatbot (\<lambda>prompt. Inr ''ok''))
        \<lparr>concept_mapping := JDict [(''Graphs'', JList [JStr ''23CS3102'', JStr ''23CS4101'',
                                                       JStr ''23CS5102''])],
         course_details :=
           (\<lambda>k. None)(JStr ''23MA3101'' \<mapsto>
              JDict [(''metadata'', JDict [(''course_code'', JStr ''23MA3101''),
                                           (''course_name'', JStr ''Probability''),
                                           (''semester'', JStr ''3'')])]),
         semester_course_map :=
           [(''2'', [JDict [(''course_code'', JStr ''23PH2101''),
                            (''course_name'', JStr ''Physics''),
                            (''credits'', JInt 3), (''category'', JStr ''BS'')]]),
            (''3'', [JDict [(''course_code'', JStr ''23MA3101''),
                            (''course_name'', JStr ''Probability''),
                            (''credits'', JInt 3), (''category'', JStr ''BS'')],
                     JDict [(''course_code'', JStr ''23CS3102''),
                            (''course_name'', JStr ''Data Structures''),
                            (''credits'', JInt 4), (''category'', JStr ''PC'')]])]\<rparr>)
     ''GRAPHS in Semester 3, e.g. 23ma3101?'' =
       Inr ''GRAPHS in Semester 3, e.g. 23ma3101? Probability Data Structures Probability 23CS3102 23CS4101''"
proof -
  let ?courses = "[JDict [(''course_code'', JStr ''23MA3101''),
                            (''course_name'', JStr ''Probability''),
                            (''credits'', JInt 3), (''category'', JStr ''BS'')],
                     JDict [(''course_code'', JStr ''23CS3102''),
                            (''course_name'', JStr ''Data Structures''),
                            (''credits'', JInt 4), (''category'', JStr ''PC'')],
                     JDict [(''course_code'', JStr ''23EC3103''),
                            (''course_name'', JStr ''Digital Logic''),
                            (''credits'', JInt 3), (''category'', JStr ''ES'')]]"
  let ?st = "(init_chatbot (\<lambda>prompt. Inr ''ok''))\<lparr>semester_course_map := [(''3'', ?courses)]\<rparr>"
  have h0: "is_ascii ''sem 3''" by (simp add: is_ascii_def)
  have h2: "map_of (semester_course_map ?st) ''3'' = Some ?courses" by simp
  have h4: "list_all (\<lambda>c. case py_item c ''course_name'' of Inr (JStr n) \<Rightarrow> True | _ \<Rightarrow> False)
              ?courses"
    by (simp add: py_item_def)
  have h5: "case course_code_search (str_upper ''sem 3'') of
             None \<Rightarrow> True
           | Some course_code \<Rightarrow>
               (case course_details ?st (JStr course_code) of
                  None \<Rightarrow> True
                | Some course \<Rightarrow>
                    (case py_item course ''metadata'' of
                       Inr (JDict metadata) \<Rightarrow> is_str (dict_get metadata ''course_name'' (JStr []))
                     | _ \<Rightarrow> False))"
    by (simp add: sem_3_no_course_code)
  have h6: "concept_mapping ?st = JDict []" by (simp add: init_chatbot_def)
  have h7: "list_all (\<lambda>kv. is_ascii (fst kv)) ([] :: (string \<times> json) list)" by simp
  have h8: "list_all (\<lambda>kv. case snd kv of JList ids \<Rightarrow> list_all is_str ids | _ \<Rightarrow> False)
              ([] :: (string \<times> json) list)"
    by simp
  from enhance_query_first_semester [OF h0 sem_3_reference h2 h4 h5 h6 h7 h8]
  obtain names others enhanced where
    n: "course_names ?courses = Inr (map JStr names)" and
    e: "enhance_query ?st ''sem 3'' = Inr enhanced"
    by blast
  have "enhance_query ?st ''sem 3'' = Inr ''sem 3 Probability Data Structures Digital Logic''"
    by (simp add: enhance_query_def semester_terms_def course_code_terms_def sem_3_reference
                  sem_3_no_course_code py_item_def join_items_def is_str_def str_of_def
                  init_chatbot_def)
  with e have first_example:
    "enhance_query ?st ''sem 3'' = Inr ''sem 3 Probability Data Structures Digital Logic''"
    by simp
  let ?q = "''GRAPHS in Semester 3, e.g. 23ma3101?''"
  let ?concepts = "[(''Graphs'', JList [JStr ''23CS3102'', JStr ''23CS4101'', JStr ''23CS5102''])]"
  let ?two = "[JDict [(''course_code'', JStr ''23MA3101''),
                            (''course_name'', JStr ''Probability''),
                            (''credits'', JInt 3), (''category'', JStr ''BS'')],
                     JDict [(''course_code'', JStr ''23CS3102''),
                            (''course_name'', JStr ''Data Structures''),
                            (''credits'', JInt 4), (''category'', JStr ''PC'')]]"
  let ?st2 = "(init_chatbot (\<lambda>prompt. Inr ''ok''))
        \<lparr>concept_mapping := JDict ?concepts,
         course_details :=
           (\<lambda>k. None)(JStr ''23MA3101'' \<mapsto>
              JDict [(''metadata'', JDict [(''course_code'', JStr ''23MA3101''),
                                           (''course_name'', JStr ''Probability''),
                                           (''semester'', JStr ''3'')])]),
         semester_course_map :=
           [(''2'', [JDict [(''course_code'', JStr ''23PH2101''),
                            (''course_name'', JStr ''Physics''),
                            (''credits'', JInt 3), (''category'', JStr ''BS'')]]),
            (''3'', ?two)]\<rparr>"
  have g0: "is_ascii ?q" by (simp add: is_ascii_def)
  have g1: "sem_search (str_lower ?q) = Some ''3''" by code_simp
  have gc: "course_code_search (str_upper ?q) = Some ''23MA3101''" by code_simp
  have gk: "sublist (str_lower ''Graphs'') (str_lower ?q)" by code_simp
  have g2: "map_of (semester_course_map ?st2) ''3'' = Some ?two" by simp
  have g4: "list_all (\<lambda>c. case py_item c ''course_name'' of Inr (JStr n) \<Rightarrow> True | _ \<Rightarrow> False)
              ?two"
    by (simp add: py_item_def)
  have g5: "case course_code_search (str_upper ?q) of
             None \<Rightarrow> True
           | Some course_code \<Rightarrow>
               (case course_details ?st2 (JStr course_code) of
                  None \<Rightarrow> True
                | Some course \<Rightarrow>
                    (case py_item course ''metadata'' of
                       Inr (JDict metadata) \<Rightarrow> is_str (dict_get metadata ''course_name'' (JStr []))
                     | _ \<Rightarrow> False))"
    by (simp add: gc py_item_def dict_get_def is_str_def)
  have g6: "concept_mapping ?st2 = JDict ?concepts" by simp
  have g7: "list_all (\<lambda>kv. is_ascii (fst kv)) ?concepts" by (simp add: is_ascii_def)
  have g8: "list_all (\<lambda>kv. case snd kv of JList ids \<Rightarrow> list_all is_str ids | _ \<Rightarrow> False)
              ?concepts"
    by (simp add: is_str_def)
  from enhance_query_first_semester [OF g0 g1 g2 g4 g5 g6 g7 g8]
  obtain names2 others2 enhanced2 where
    e2: "enhance_query ?st2 ?q = Inr enhanced2"
    by blast
  have "enhance_query ?st2 ?q =
      Inr ''GRAPHS in Semester 3, e.g. 23ma3101? Probability Data Structures Probability 23CS3102 23CS4101''"
    using gk
    by (simp add: enhance_query_def semester_terms_def course_code_terms_def g1 gc
                  py_item_def dict_get_def first_two_def join_items_def is_str_def str_of_def)
  with e2 first_example show ?thesis by simp
qed

text \<open>
  The claim as stated fails for a query with more than one semester reference: only
  the first is looked up. In \<open>sem 9 and sem 3\<close> the reference \<open>sem 3\<close> matches the
  pattern and \<open>3\<close> is a key of the semester index, yet the query comes back unchanged,
  without the course name, because the first reference is \<open>sem 9\<close>.
\<close>

theorem enhance_query_later_semester_ignored:
  "''3'' \<in> set (sem_references (str_lower ''sem 9 and sem 3''))
   \<and> map_of (semester_course_map
         ((init_chatbot (\<lambda>prompt. Inr ''ok''))
            \<lparr>semester_course_map :=
               [(''3'', [JDict [(''course_code'', JStr ''23MA3101''),
                                (''course_name'', JStr ''Probability''),
                                (''credits'', JInt 3), (''category'', JStr ''BS'')]])]\<rparr>)) ''3''
       = Some [JDict [(''course_code'', JStr ''23MA3101''),
                      (''course_name'', JStr ''Probability''),
                      (''credits'', JInt 3), (''category'', JStr ''BS'')]]
   \<and> enhance_query
         ((init_chatbot (\<lambda>prompt. Inr ''ok''))
            \<lparr>semester_course_map :=
               [(''3'', [JDict [(''course_code'', JStr ''23MA3101''),
                                (''course_name'', JStr ''Probability''),
                                (''credits'', JInt 3), (''category'', JStr ''BS'')]])]\<rparr>)
         ''sem 9 and sem 3'' = Inr ''sem 9 and sem 3''
   \<and> \<not> sublist ''Probability'' ''sem 9 and sem 3''"
proof -
  have refs: "sem_references (str_lower ''sem 9 and sem 3'') = [''9'', ''3'']" by code_simp
  have first: "sem_search (str_lower ''sem 9 and sem 3'') = Some ''9''" by code_simp
  have code: "course_code_search (str_upper ''sem 9 and sem 3'') = None" by code_simp
  have absent: "\<not> sublist ''Probability'' ''sem 9 and sem 3''" by code_simp
  show ?thesis
    using absent
    by (simp add: refs enhance_query_def semester_terms_def course_code_terms_def first code
                  init_chatbot_def)
qed

end
